theory Spec2Isabelle
  imports Complex_Main "HOL-Library.Word" "HOL-Library.Log_Nat"
begin

unbundle bit_operations_syntax

section \<open>JavaScript numbers as far as the program uses them\<close>

text \<open>
  A JavaScript number is an IEEE 754 binary64 value. The model writes a finite number as
  the rational it denotes, and every arithmetic operation rounds its exact result to the
  nearest binary64 value, ties to the even significand (\<open>to_double\<close>). The exponent is
  not bounded here: the numbers of this program (screen coordinates and scale factors)
  are far from overflow and from the subnormal range. \<open>binade q\<close> is the exponent \<open>e\<close>
  with \<open>2 ^ e \<le> |q| < 2 ^ (e + 1)\<close>, so that the 53-bit significand of \<open>q\<close> counts in
  units of \<open>2 ^ (e - 52)\<close>.
\<close>

definition roundTiesToEven :: "rat \<Rightarrow> int" where
  "roundTiesToEven t =
     (let f = \<lfloor>t\<rfloor>; r = t - of_int f
      in if r < 1 / 2 then f
         else if 1 / 2 < r then f + 1
         else if even f then f else f + 1)"

definition binade :: "rat \<Rightarrow> int" where
  "binade q =
     (let (a, b) = quotient_of \<bar>q\<bar>;
          k = bitlen a - bitlen b
      in if 2 powi k \<le> \<bar>q\<bar> then k else k - 1)"

definition to_double :: "rat \<Rightarrow> rat" where
  "to_double q =
     (if q = 0 then 0
      else (let ulp = 2 powi (binade q - 52)
            in of_int (roundTiesToEven (q / ulp)) * ulp))"

text \<open>
  Multiplication and division of two numbers. A division whose divisor is zero gives a
  non-finite number: \<open>js_div\<close> returns \<open>None\<close> there. \<open>Math.round\<close> gives the nearest
  integer with ties towards plus infinity and \<open>Math.floor\<close> rounds down; both are exact,
  and so are the differences, minima and comparisons of whole numbers of pixels that the
  selector computes.
\<close>

definition js_mul :: "rat \<Rightarrow> rat \<Rightarrow> rat" where
  "js_mul a b = to_double (a * b)"

definition js_div :: "rat \<Rightarrow> rat \<Rightarrow> rat option" where
  "js_div a b = (if b = 0 then None else Some (to_double (a / b)))"

definition Math_round :: "rat \<Rightarrow> int" where
  "Math_round v = \<lfloor>v + 1 / 2\<rfloor>"

definition Math_floor :: "rat \<Rightarrow> int" where
  "Math_floor v = \<lfloor>v\<rfloor>"

text \<open>
  The bitwise operators first coerce their operands to signed 32-bit integers
  (\<open>ToInt32\<close>: reduce modulo \<open>2 ^ 32\<close> into \<open>[- 2 ^ 31, 2 ^ 31)\<close>).
\<close>

definition ToInt32 :: "int \<Rightarrow> int" where
  "ToInt32 n = (n + 2 ^ 31) mod 2 ^ 32 - 2 ^ 31"

definition js_not :: "int \<Rightarrow> int" where
  "js_not a = NOT (ToInt32 a)"

definition js_and :: "int \<Rightarrow> int \<Rightarrow> int" where
  "js_and a b = ToInt32 a AND ToInt32 b"

section \<open>Data model\<close>

text \<open>
  \<open>SelectionRect\<close> of the selector, in logical screen pixels. Its fields are JavaScript
  numbers.
\<close>

record SelectionRect =
  rect_x :: rat
  rect_y :: rat
  rect_width :: rat
  rect_height :: rat

text \<open>
  The rectangle sent to the recording worker: the selection with the optional
  \<open>scaleFactor\<close> (\<open>None\<close> when the property is absent). The factor is a JavaScript
  number too: a device pixel ratio of 1.15 is \<open>to_double (23 / 20)\<close>.
\<close>

record WorkerRect = SelectionRect +
  scaleFactor :: "rat option"

datatype mode = Clipboard | File | Record

datatype image_format = Png | Jpg
datatype video_format = Mp4 | Webm
datatype audio_source = NoAudio | SystemAudio | Mic
datatype shortcut_mode = Standard | Alternative

record AppSettings =
  savePath :: string
  imageFormat :: image_format
  videoFormat :: video_format
  audioSource :: audio_source
  frameRate :: nat
  shortcutMode :: shortcut_mode

section \<open>The orchestrator (main process)\<close>

text \<open>
  An image is known by its physical size and an identifier of its pixels; a cropped
  image is the source image with the integer rectangle that \<open>img.crop\<close> received.
\<close>

record image =
  img_id :: nat
  img_width :: rat
  img_height :: rat

record CropRect =
  crop_x :: int
  crop_y :: int
  crop_width :: int
  crop_height :: int

record cropped_image =
  crop_source :: image
  crop_rect :: CropRect

text \<open>
  What a file holds: an image encoded by \<open>toPNG\<close>, the bytes of a video container, or
  the lines appended to a log.
\<close>

datatype file_content = PNGData cropped_image | Bytes "nat list" | LogLines "string list"

text \<open>
  The transient notifications of \<open>showNotification\<close>, one constructor per message of
  the source: copied; saved; recording failed, data is empty; saving, writing the file;
  saving failed, temporary file write error; saving, transcoding starts; saved (MP4 and
  WebM); transcoding failed, WebM saved; saved (WebM).
\<close>

datatype notice =
    NoteCopied
  | NoteSaved
  | NoteRecordingFailedEmpty
  | NoteSavingWriting
  | NoteSaveFailedTempWrite
  | NoteSavingTranscoding
  | NoteSavedMp4Webm
  | NoteTranscodeFailedWebmSaved
  | NoteSavedWebm

record main_state =
  settings :: AppSettings
  isRecording :: bool
  selectorWindow :: bool
  clipboard :: "cropped_image option"
  fs :: "string \<rightharpoonup> file_content"
  notices :: "notice list"

datatype main_error = NoScreenSource | NonFiniteScale | WriteError

text \<open>
  \<open>new Date().toISOString().replace(/[:.]/g, '-').split('.')[0]\<close>: every colon and
  dot becomes a dash, then the text before the first dot is kept.
\<close>

definition timestamp_of :: "string \<Rightarrow> string" where
  "timestamp_of isoString =
     takeWhile (\<lambda>c. c \<noteq> CHR ''.'')
       (map (\<lambda>c. if c = CHR '':'' \<or> c = CHR ''.'' then CHR ''-'' else c) isoString)"

text \<open>\<open>path.join\<close> of a directory and a file name (normalisation is not modelled).\<close>

definition path_join :: "string \<Rightarrow> string \<Rightarrow> string" where
  "path_join dir name = dir @ ''/'' @ name"

text \<open>
  The crop rectangle of \<open>capture-region\<close>: \<open>scaleX = imgSize.width / width\<close>,
  \<open>scaleY = imgSize.height / height\<close>, every component multiplied and rounded.
\<close>

definition cropRect :: "SelectionRect \<Rightarrow> image \<Rightarrow> rat \<Rightarrow> rat \<Rightarrow> CropRect option" where
  "cropRect rect img width height =
     (case js_div (img_width img) width of
        None \<Rightarrow> None
      | Some scaleX \<Rightarrow>
          (case js_div (img_height img) height of
             None \<Rightarrow> None
           | Some scaleY \<Rightarrow>
               Some \<lparr> crop_x = Math_round (js_mul (rect_x rect) scaleX),
                      crop_y = Math_round (js_mul (rect_y rect) scaleY),
                      crop_width = Math_round (js_mul (rect_width rect) scaleX),
                      crop_height = Math_round (js_mul (rect_height rect) scaleY) \<rparr>))"

text \<open>
  What the handler reads from its environment: the bounds of the primary display, the
  thumbnails returned by \<open>desktopCapturer.getSources\<close>, the clock, and whether
  \<open>fs.writeFileSync\<close> succeeds.
\<close>

record capture_env =
  display_width :: rat
  display_height :: rat
  sources :: "image list"
  now_iso :: string
  write_ok :: bool

text \<open>
  The handler of \<open>capture-region\<close>. It closes the selector window, takes the first
  screen source (throwing without one), crops, and writes the clipboard or a file. A mode
  that is neither \<open>clipboard\<close> nor \<open>file\<close> writes nothing. A zero display size makes the
  scale non-finite; the model stops there with \<open>NonFiniteScale\<close>.
\<close>

definition capture_region ::
  "SelectionRect \<Rightarrow> mode \<Rightarrow> capture_env \<Rightarrow> main_state \<Rightarrow> (main_error + string) \<times> main_state" where
  "capture_region rect md env m =
     (let m1 = m\<lparr>selectorWindow := False\<rparr> in
      case sources env of
        [] \<Rightarrow> (Inl NoScreenSource, m1)
      | img # _ \<Rightarrow>
          (case cropRect rect img (display_width env) (display_height env) of
             None \<Rightarrow> (Inl NonFiniteScale, m1)
           | Some cr \<Rightarrow>
               (let cropped = \<lparr> crop_source = img, crop_rect = cr \<rparr> in
                case md of
                  Clipboard \<Rightarrow>
                    (Inr ''success'',
                     m1\<lparr>clipboard := Some cropped, notices := notices m1 @ [NoteCopied]\<rparr>)
                | File \<Rightarrow>
                    (let timestamp = timestamp_of (now_iso env);
                         filepath = path_join (savePath (settings m1))
                                      (''screenshot-'' @ timestamp @ ''.png'')
                     in if write_ok env
                        then (Inr ''success'',
                              m1\<lparr>fs := (fs m1)(filepath \<mapsto> PNGData cropped),
                                  notices := notices m1 @ [NoteSaved]\<rparr>)
                        else (Inl WriteError, m1))
                | Record \<Rightarrow> (Inr ''success'', m1))))"

text \<open>
  The handler of \<open>recording-finished\<close>. The buffer is \<open>None\<close> when the argument is
  missing. The environment gives the clock, whether writing the WebM file succeeds, and
  the outcome of the transcoding block (loading ffmpeg and running it): done with the
  bytes of the MP4 file, or failed with the error's message and whatever partial output
  ffmpeg left at the MP4 path. \<open>logDebug\<close> appends a line to the debug log and swallows
  a failure to do so.
\<close>

datatype transcode_result =
    TranscodeDone "nat list"
  | TranscodeError string "nat list option"

record finish_env =
  fin_now_iso :: string
  webm_write_ok :: bool
  transcode :: transcode_result
  debug_append_ok :: bool

definition showNotification :: "notice \<Rightarrow> main_state \<Rightarrow> main_state" where
  "showNotification msg m = m\<lparr>notices := notices m @ [msg]\<rparr>"

definition logDebug :: "string \<Rightarrow> bool \<Rightarrow> string \<Rightarrow> main_state \<Rightarrow> main_state" where
  "logDebug debugLogPath ok msg m =
     (if ok
      then m\<lparr>fs := (fs m)(debugLogPath \<mapsto>
                 (case fs m debugLogPath of
                    Some (LogLines ls) \<Rightarrow> LogLines (ls @ [msg])
                  | _ \<Rightarrow> LogLines [msg]))\<rparr>
      else m)"

definition recording_finished ::
  "nat list option \<Rightarrow> finish_env \<Rightarrow> main_state \<Rightarrow> (main_error + unit) \<times> main_state" where
  "recording_finished buffer env m =
     (let timestamp = timestamp_of (fin_now_iso env);
          debugLogPath = path_join (savePath (settings m)) (''debug-'' @ timestamp @ ''.log'');
          m1 = m\<lparr>isRecording := False\<rparr>;
          bufLength = (case buffer of None \<Rightarrow> 0 | Some b \<Rightarrow> length b)
      in case buffer of
           None \<Rightarrow> (Inr (), showNotification NoteRecordingFailedEmpty m1)
         | Some b \<Rightarrow>
             if bufLength = 0 then (Inr (), showNotification NoteRecordingFailedEmpty m1)
             else
               (let m2 = showNotification NoteSavingWriting m1;
                    webmPath = path_join (savePath (settings m2))
                                 (''recording-'' @ timestamp @ ''.webm'')
                in if \<not> webm_write_ok env
                   then (Inr (), showNotification NoteSaveFailedTempWrite m2)
                   else
                     (let m3 = m2\<lparr>fs := (fs m2)(webmPath \<mapsto> Bytes b)\<rparr> in
                      if videoFormat (settings m3) = Mp4
                      then
                        (let mp4Path = path_join (savePath (settings m3))
                                         (''recording-'' @ timestamp @ ''.mp4'');
                             m4 = showNotification NoteSavingTranscoding m3
                         in case transcode env of
                              TranscodeDone out \<Rightarrow>
                                (Inr (), showNotification NoteSavedMp4Webm
                                           (m4\<lparr>fs := (fs m4)(mp4Path \<mapsto> Bytes out)\<rparr>))
                            | TranscodeError msg partial \<Rightarrow>
                                (let m5 = (case partial of
                                             None \<Rightarrow> m4
                                           | Some bs \<Rightarrow> m4\<lparr>fs := (fs m4)(mp4Path \<mapsto> Bytes bs)\<rparr>);
                                     m6 = logDebug debugLogPath (debug_append_ok env)
                                            (''Conversion failed: '' @ msg) m5
                                 in (Inr (), showNotification NoteTranscodeFailedWebmSaved m6)))
                      else (Inr (), showNotification NoteSavedWebm m3))))"

text \<open>
  The handler of \<open>set-ignore-mouse-events\<close>: the window either captures the mouse or
  ignores it; the handler always forwards when it ignores, whatever \<open>options\<close> said.
\<close>

datatype mouse_policy = CaptureMouse | PassThrough bool

definition set_ignore_mouse_events :: "bool \<Rightarrow> bool option \<Rightarrow> mouse_policy" where
  "set_ignore_mouse_events ignore options = (if ignore then PassThrough True else CaptureMouse)"

section \<open>The region selector (overlay)\<close>

type_synonym point = "rat \<times> rat"

text \<open>
  The component's props (\<open>mode\<close>, whether \<open>onStartRecording\<close> was passed) and its state
  hooks.
\<close>

record selector_state =
  sel_mode :: mode
  has_onStartRecording :: bool
  isSelecting :: bool
  startPoint :: point
  selection :: "SelectionRect option"
  isRecordingActive :: bool
  screenshotUrl :: "string option"

text \<open>The calls the component makes to the outside.\<close>

datatype selector_call =
    SetIgnoreMouseEvents bool "bool option"
  | CaptureRegion SelectionRect mode point
  | OnStartRecording SelectionRect
  | OnCancel
  | ScreenshotReady
  | RevokeObjectURL string

definition truthy_url :: "string option \<Rightarrow> bool" where
  "truthy_url u = (case u of None \<Rightarrow> False | Some s \<Rightarrow> s \<noteq> [])"

text \<open>The click-through effect, with dependencies \<open>[mode, isRecordingActive, screenshotUrl]\<close>.\<close>

definition clickThroughEffect :: "mode \<Rightarrow> bool \<Rightarrow> string option \<Rightarrow> selector_call" where
  "clickThroughEffect md active url =
     (if md = Record
      then (if active then SetIgnoreMouseEvents True (Some True)
            else SetIgnoreMouseEvents False None)
      else (if truthy_url url then SetIgnoreMouseEvents False None
            else SetIgnoreMouseEvents True (Some False)))"

definition captureAndFinish :: "mode \<Rightarrow> SelectionRect \<Rightarrow> point \<Rightarrow> selector_call list" where
  "captureAndFinish md rect mouseStartPos =
     (if rect_width rect < 5 \<or> rect_height rect < 5 then []
      else [CaptureRegion rect md mouseStartPos])"

definition handleMouseDown :: "nat \<Rightarrow> point \<Rightarrow> selector_state \<Rightarrow> selector_state" where
  "handleMouseDown button p st =
     (if button \<noteq> 0 then st
      else st\<lparr>isSelecting := True, startPoint := p, selection := None\<rparr>)"

definition handleMouseMove :: "point \<Rightarrow> selector_state \<Rightarrow> selector_state" where
  "handleMouseMove p st =
     (if \<not> isSelecting st then st
      else st\<lparr>selection := Some
             \<lparr> rect_x = min (fst (startPoint st)) (fst p),
               rect_y = min (snd (startPoint st)) (snd p),
               rect_width = \<bar>fst p - fst (startPoint st)\<bar>,
               rect_height = \<bar>snd p - snd (startPoint st)\<bar> \<rparr>\<rparr>)"

definition handleMouseUp :: "nat \<Rightarrow> selector_state \<Rightarrow> selector_state \<times> selector_call list" where
  "handleMouseUp button st =
     (if button \<noteq> 0 \<or> \<not> isSelecting st then (st, [])
      else
        (let st1 = st\<lparr>isSelecting := False\<rparr> in
         case selection st of
           None \<Rightarrow> (st1, [])
         | Some sel \<Rightarrow>
             if rect_width sel > 5 \<and> rect_height sel > 5
             then (if sel_mode st = Record then (st1, [])
                   else (st1, captureAndFinish (sel_mode st) sel (startPoint st)))
             else (st1, [])))"

text \<open>The control bar (start and cancel buttons) is rendered under this condition.\<close>

definition controls_rendered :: "selector_state \<Rightarrow> bool" where
  "controls_rendered st =
     (sel_mode st = Record \<and> \<not> isSelecting st \<and>
      (case selection st of
         None \<Rightarrow> False
       | Some sel \<Rightarrow> rect_width sel > 20 \<and> rect_height sel > 20))"

definition handleControlMouseEnter :: "selector_state \<Rightarrow> selector_call list" where
  "handleControlMouseEnter st =
     (if sel_mode st = Record \<and> isRecordingActive st
      then [SetIgnoreMouseEvents False None] else [])"

definition handleControlMouseLeave :: "selector_state \<Rightarrow> selector_call list" where
  "handleControlMouseLeave st =
     (if sel_mode st = Record \<and> isRecordingActive st
      then [SetIgnoreMouseEvents True (Some True)] else [])"

definition handleStartRecording :: "selector_state \<Rightarrow> selector_state \<times> selector_call list" where
  "handleStartRecording st =
     (case selection st of
        None \<Rightarrow> (st, [])
      | Some sel \<Rightarrow>
          if \<not> has_onStartRecording st then (st, [])
          else (st\<lparr>isRecordingActive := True\<rparr>, [OnStartRecording sel]))"

text \<open>
  What can happen to the mounted component: pointer and keyboard events, clicks on the
  two buttons and hovering of the control bar (possible only while the bar is rendered),
  the screenshot of the frozen mode arriving or being cleared, and the parent changing
  the \<open>mode\<close> prop.
\<close>

datatype selector_event =
    MouseDown nat point
  | MouseMove point
  | MouseUp nat
  | KeyDown string
  | ContextMenu
  | ClickStart
  | ClickCancel
  | ControlMouseEnter
  | ControlMouseLeave
  | ScreenshotLoaded string
  | ClearScreenshot
  | SetMode mode

fun handle_event :: "selector_event \<Rightarrow> selector_state \<Rightarrow> selector_state \<times> selector_call list" where
  "handle_event (MouseDown button p) st = (handleMouseDown button p st, [])"
| "handle_event (MouseMove p) st = (handleMouseMove p st, [])"
| "handle_event (MouseUp button) st = handleMouseUp button st"
| "handle_event (KeyDown k) st = (st, if k = ''Escape'' then [OnCancel] else [])"
| "handle_event ContextMenu st = (st, [OnCancel])"
| "handle_event ClickStart st =
     (if controls_rendered st then handleStartRecording st else (st, []))"
| "handle_event ClickCancel st = (st, if controls_rendered st then [OnCancel] else [])"
| "handle_event ControlMouseEnter st =
     (st, if controls_rendered st then handleControlMouseEnter st else [])"
| "handle_event ControlMouseLeave st =
     (st, if controls_rendered st then handleControlMouseLeave st else [])"
| "handle_event (ScreenshotLoaded url) st = (st\<lparr>screenshotUrl := Some url\<rparr>, [ScreenshotReady])"
| "handle_event ClearScreenshot st =
     (st\<lparr>screenshotUrl := None, selection := None\<rparr>,
      if truthy_url (screenshotUrl st) then [RevokeObjectURL (the (screenshotUrl st))] else [])"
| "handle_event (SetMode md) st = (st\<lparr>sel_mode := md\<rparr>, [])"

text \<open>
  After the render that follows a handler, the effects whose dependencies changed run in
  the order of their declaration: the click-through effect, then the reset effect
  (\<open>if (mode !== 'record') setIsRecordingActive(false)\<close>, on a change of \<open>mode\<close>); a
  state change made by the reset effect renders again and re-runs the click-through
  effect.
\<close>

definition click_deps :: "selector_state \<Rightarrow> mode \<times> bool \<times> string option" where
  "click_deps st = (sel_mode st, isRecordingActive st, screenshotUrl st)"

definition run_effects ::
  "selector_state \<Rightarrow> selector_state \<Rightarrow> selector_state \<times> selector_call list" where
  "run_effects old new =
     (let c1 = (if click_deps new \<noteq> click_deps old
                then [clickThroughEffect (sel_mode new) (isRecordingActive new) (screenshotUrl new)]
                else []);
          new' = (if sel_mode new \<noteq> sel_mode old \<and> sel_mode new \<noteq> Record
                  then new\<lparr>isRecordingActive := False\<rparr> else new);
          c2 = (if click_deps new' \<noteq> click_deps new
                then [clickThroughEffect (sel_mode new') (isRecordingActive new') (screenshotUrl new')]
                else [])
      in (new', c1 @ c2))"

definition selector_step ::
  "selector_event \<Rightarrow> selector_state \<Rightarrow> selector_state \<times> selector_call list" where
  "selector_step e st =
     (let (st1, cs) = handle_event e st;
          (st2, es) = run_effects st st1
      in (st2, cs @ es))"

text \<open>Mounting runs every effect once, from the initial values of the state hooks.\<close>

definition selector_initial :: "mode \<Rightarrow> bool \<Rightarrow> selector_state" where
  "selector_initial md has =
     \<lparr> sel_mode = md, has_onStartRecording = has, isSelecting = False, startPoint = (0, 0),
       selection = None, isRecordingActive = False, screenshotUrl = None \<rparr>"

definition selector_mount :: "mode \<Rightarrow> bool \<Rightarrow> selector_state \<times> selector_call list" where
  "selector_mount md has =
     (selector_initial md has, [clickThroughEffect md False None])"

text \<open>
  The overlay is the component together with the mouse policy of its window; every
  \<open>setIgnoreMouseEvents\<close> call reaches the window through the main process's handler.
\<close>

fun apply_calls :: "mouse_policy \<Rightarrow> selector_call list \<Rightarrow> mouse_policy" where
  "apply_calls pol [] = pol"
| "apply_calls pol (SetIgnoreMouseEvents ignore options # cs) =
     apply_calls (set_ignore_mouse_events ignore options) cs"
| "apply_calls pol (_ # cs) = apply_calls pol cs"

definition overlay_mount :: "mode \<Rightarrow> bool \<Rightarrow> selector_state \<times> mouse_policy" where
  "overlay_mount md has =
     (let (st, cs) = selector_mount md has in (st, apply_calls CaptureMouse cs))"

definition overlay_step ::
  "selector_event \<Rightarrow> selector_state \<times> mouse_policy \<Rightarrow> selector_state \<times> mouse_policy" where
  "overlay_step e sp =
     (let (st', cs) = selector_step e (fst sp) in (st', apply_calls (snd sp) cs))"

fun overlay_run ::
  "selector_event list \<Rightarrow> selector_state \<times> mouse_policy \<Rightarrow> selector_state \<times> mouse_policy" where
  "overlay_run [] sp = sp"
| "overlay_run (e # es) sp = overlay_run es (overlay_step e sp)"

text \<open>The captured calls of a run, in order.\<close>

fun selector_calls :: "selector_event list \<Rightarrow> selector_state \<Rightarrow> selector_call list" where
  "selector_calls [] st = []"
| "selector_calls (e # es) st =
     (let (st', cs) = selector_step e st in cs @ selector_calls es st')"

section \<open>The recording worker\<close>

text \<open>
  The worker lives in one window and handles one event at a time. Its refs
  (\<open>mediaRecorderRef\<close>, \<open>streamRef\<close>, \<open>canvasRef\<close>, \<open>videoRef\<close>, \<open>animationFrameRef\<close>,
  \<open>chunksRef\<close>) are shared by every run of \<open>handleStart\<close>; the variables a run declares
  (its rectangle, canvas, video element, captured streams, recorder) are captured by the
  closures \<open>draw\<close>, \<open>ondataavailable\<close> and \<open>onstop\<close> of that run and are kept here in a
  \<open>session\<close>, numbered in order of creation. Media tracks and timers are numbers; the
  browser's side of them is the set of stopped tracks and the map of pending timeouts.

  A chunk is the data of a blob together with the number of the session whose recorder
  delivered it. The number is a label of the model: the program's blobs carry none.
\<close>

datatype recorder_state = Inactive | Recording | Paused

datatype worker_error = InvalidStateError

type_synonym chunk = "nat \<times> nat list"

record session =
  s_rect :: WorkerRect
  s_sourceScale :: rat
  s_canvas_width :: int
  s_canvas_height :: int
  s_screenTracks :: "nat list"
  s_sysStreamRef :: "nat list option"
  s_micStreamRef :: "nat list option"
  s_audioCtxRef :: "bool option"
  s_video_paused :: bool
  s_video_ended :: bool
  s_video_srcObject :: bool
  s_recorder :: "recorder_state option"
  s_stop_pending :: bool

record frame =
  f_session :: nat
  f_sx :: int
  f_sy :: int
  f_sw :: int
  f_sh :: int
  f_dw :: int
  f_dh :: int

record finished =
  fin_session :: nat
  fin_chunks :: "chunk list"
  fin_buffer :: "nat list"

record worker =
  mediaRecorderRef :: "nat option"
  streamRef :: "nat list option"
  canvasRef :: "(int \<times> int) option"
  videoRef :: "nat option"
  animationFrameRef :: "nat option"
  chunksRef :: "chunk list"
  sessions :: "nat \<rightharpoonup> session"
  next_session :: nat
  stopped_tracks :: "nat set"
  timers :: "nat \<rightharpoonup> nat"
  next_timer :: nat
  frames :: "frame list"
  wlog :: "string list"
  sent :: "finished list"

definition worker_initial :: worker where
  "worker_initial =
     \<lparr> mediaRecorderRef = None, streamRef = None, canvasRef = None, videoRef = None,
       animationFrameRef = None, chunksRef = [], sessions = Map.empty, next_session = 0,
       stopped_tracks = {}, timers = Map.empty, next_timer = 1, frames = [],
       wlog = [''Background Recorder Mounted''], sent = [] \<rparr>"

definition log_w :: "string \<Rightarrow> worker \<Rightarrow> worker" where
  "log_w msg w = w\<lparr>wlog := wlog w @ [msg]\<rparr>"

definition recorder_state_of :: "worker \<Rightarrow> nat \<Rightarrow> recorder_state option" where
  "recorder_state_of w r = (case sessions w r of None \<Rightarrow> None | Some s \<Rightarrow> s_recorder s)"

text \<open>
  \<open>mediaRecorderRef.current && mediaRecorderRef.current.state !== 'inactive'\<close>
\<close>

definition recorder_active :: "worker \<Rightarrow> bool" where
  "recorder_active w =
     (case mediaRecorderRef w of
        None \<Rightarrow> False
      | Some r \<Rightarrow> (case recorder_state_of w r of
                     None \<Rightarrow> False
                   | Some st \<Rightarrow> st \<noteq> Inactive))"

text \<open>
  \<open>MediaRecorder.stop()\<close>: an inactive recorder raises \<open>InvalidStateError\<close>; otherwise
  the state becomes inactive at once, and the final \<open>dataavailable\<close> event and the
  \<open>stop\<close> event are queued for later delivery.
\<close>

definition MediaRecorder_stop :: "nat \<Rightarrow> worker \<Rightarrow> worker_error + worker" where
  "MediaRecorder_stop r w =
     (case sessions w r of
        None \<Rightarrow> Inl InvalidStateError
      | Some s \<Rightarrow>
          (case s_recorder s of
             None \<Rightarrow> Inl InvalidStateError
           | Some Inactive \<Rightarrow> Inl InvalidStateError
           | Some _ \<Rightarrow>
               Inr (w\<lparr>sessions := (sessions w)(r \<mapsto>
                          s\<lparr>s_recorder := Some Inactive, s_stop_pending := True\<rparr>)\<rparr>)))"

definition stop_tracks :: "nat list \<Rightarrow> worker \<Rightarrow> worker" where
  "stop_tracks ts w = w\<lparr>stopped_tracks := stopped_tracks w \<union> set ts\<rparr>"

text \<open>\<open>clearTimeout\<close> of a pending timeout removes it; of any other number it does nothing.\<close>

definition clearTimeout :: "nat \<Rightarrow> worker \<Rightarrow> worker" where
  "clearTimeout t w = w\<lparr>timers := (timers w)(t := None)\<rparr>"

text \<open>
  \<open>handleStart\<close> up to its first \<open>await\<close>: the clean-up of the previous recording state.
  Its first block stops the previous recorder when there is an active one, swallowing an
  exception of \<open>stop()\<close>. A timer number is truthy when it is not zero.
\<close>

definition stop_previous :: "worker \<Rightarrow> worker" where
  "stop_previous w0 =
     (if recorder_active w0
      then (let wl = log_w ''Stopping previous recording...'' w0 in
            case MediaRecorder_stop (the (mediaRecorderRef wl)) wl of
              Inr w' \<Rightarrow> w'
            | Inl _ \<Rightarrow> wl)
      else w0)"

definition handleStart_cleanup :: "worker \<Rightarrow> worker" where
  "handleStart_cleanup w =
     (let w0 = log_w ''Starting recording via Worker.'' w;
          w1 = stop_previous w0;
          w2 = (case streamRef w1 of
                  Some ts \<Rightarrow> (stop_tracks ts w1)\<lparr>streamRef := None\<rparr>
                | None \<Rightarrow> w1);
          w3 = (case animationFrameRef w2 of
                  Some t \<Rightarrow> if t \<noteq> 0 then (clearTimeout t w2)\<lparr>animationFrameRef := None\<rparr> else w2
                | None \<Rightarrow> w2);
          w4 = w3\<lparr>chunksRef := []\<rparr>
      in log_w ''Previous recording state cleaned up'' w4)"

text \<open>
  The compositor's canvas size (\<open>Math.floor(rect.width * outputScale) & ~1\<close> with
  \<open>outputScale = 1\<close>; the product of a number with 1 is that number, so nothing is
  rounded there) and the source scale (\<open>rect.scaleFactor || 1\<close>: an absent or zero
  factor gives 1).
\<close>

definition outputScale :: rat where
  "outputScale = 1"

definition canvas_dim :: "rat \<Rightarrow> int" where
  "canvas_dim v = js_and (Math_floor (v * outputScale)) (js_not 1)"

definition sourceScale :: "WorkerRect \<Rightarrow> rat" where
  "sourceScale rect =
     (case scaleFactor rect of
        None \<Rightarrow> 1
      | Some f \<Rightarrow> if f = 0 then 1 else f)"

text \<open>
  One run of \<open>draw\<close> for a session: nothing happens while the video is paused or has
  ended; otherwise the scaled source rectangle is drawn onto the whole canvas and the
  next run is scheduled with \<open>setTimeout(draw, 1000 / 30)\<close>, whose number goes to
  \<open>animationFrameRef\<close>. Time is not modelled: a scheduled run is a pending timer.
  (\<open>ctx\<close> is not null here: \<open>handleStart\<close> threw before defining \<open>draw\<close> otherwise.)
\<close>

definition draw :: "nat \<Rightarrow> worker \<Rightarrow> worker" where
  "draw n w =
     (case sessions w n of
        None \<Rightarrow> w
      | Some s \<Rightarrow>
          if s_video_paused s \<or> s_video_ended s then w
          else
            (let sx = Math_round (js_mul (rect_x (s_rect s)) (s_sourceScale s));
                 sy = Math_round (js_mul (rect_y (s_rect s)) (s_sourceScale s));
                 sw = Math_round (js_mul (rect_width (s_rect s)) (s_sourceScale s));
                 sh = Math_round (js_mul (rect_height (s_rect s)) (s_sourceScale s));
                 t = next_timer w
             in w\<lparr>frames := frames w @
                     [\<lparr> f_session = n, f_sx = sx, f_sy = sy, f_sw = sw, f_sh = sh,
                        f_dw = s_canvas_width s, f_dh = s_canvas_height s \<rparr>],
                  timers := (timers w)(t \<mapsto> n),
                  next_timer := Suc t,
                  animationFrameRef := Some t\<rparr>))"

text \<open>
  The handlers installed on a session's recorder. \<open>onstop\<close> awaits the closing of the
  audio context and the conversion of the blob; the model runs it in one step.
\<close>

definition ondataavailable :: "nat \<Rightarrow> nat list \<Rightarrow> worker \<Rightarrow> worker" where
  "ondataavailable n d w =
     (let w1 = log_w ''ondataavailable fired.'' w in
      if length d > 0
      then log_w ''Chunk added.'' (w1\<lparr>chunksRef := chunksRef w1 @ [(n, d)]\<rparr>)
      else log_w ''WARNING: Received empty data chunk'' w1)"

definition update_session :: "nat \<Rightarrow> (session \<Rightarrow> session) \<Rightarrow> worker \<Rightarrow> worker" where
  "update_session n f w =
     (case sessions w n of
        None \<Rightarrow> w
      | Some s \<Rightarrow> w\<lparr>sessions := (sessions w)(n \<mapsto> f s)\<rparr>)"

definition onstop :: "nat \<Rightarrow> worker \<Rightarrow> worker" where
  "onstop n w =
     (case sessions w n of
        None \<Rightarrow> w
      | Some s \<Rightarrow>
          (let w1 = log_w ''Recorder stopped'' w;
               w2 = (case animationFrameRef w1 of
                       Some t \<Rightarrow> if t \<noteq> 0 then clearTimeout t w1 else w1
                     | None \<Rightarrow> w1);
               w3 = update_session n
                      (\<lambda>s. s\<lparr>s_video_paused := True, s_video_srcObject := False\<rparr>) w2;
               w4 = stop_tracks (s_screenTracks s) w3;
               w5 = (case s_sysStreamRef s of
                       Some ts \<Rightarrow> log_w ''System audio stream closed'' (stop_tracks ts w4)
                     | None \<Rightarrow> w4);
               w6 = (case s_micStreamRef s of
                       Some ts \<Rightarrow> log_w ''Mic stream closed'' (stop_tracks ts w5)
                     | None \<Rightarrow> w5);
               w7 = (case s_audioCtxRef s of
                       Some _ \<Rightarrow> log_w ''AudioContext closed''
                                   (update_session n (\<lambda>s. s\<lparr>s_audioCtxRef := Some False\<rparr>) w6)
                     | None \<Rightarrow> w6);
               w8 = log_w ''Final chunks count'' w7;
               buffer = concat (map snd (chunksRef w8));
               w9 = w8\<lparr>sent := sent w8 @
                       [\<lparr> fin_session = n, fin_chunks = chunksRef w8, fin_buffer = buffer \<rparr>]\<rparr>
           in log_w ''Recording sent to main process'' w9))"

text \<open>
  The rest of \<open>handleStart\<close>, after the first \<open>await\<close>. The environment resolves the
  awaited calls: the screen source id, the tracks of the captured screen stream (\<open>None\<close>
  when \<open>getUserMedia\<close> rejects), whether the 2d context exists, whether \<open>video.play()\<close>
  resolves, the tracks of the canvas stream, of the microphone and system-audio streams,
  how the building of the audio graph ends (\<open>new AudioContext()\<close> throws and
  \<open>audioCtxRef\<close> stays null; a later step throws with \<open>audioCtxRef\<close> already set; or
  the graph is built) and the audio tracks of its destination, whether
  the recorder can be constructed (it is inactive then) and whether \<open>recorder.start()\<close>
  succeeds. Every throw is caught by the handler's own \<open>try\<close> and logged. Tasks that
  run between the awaits of this part are not modelled.
\<close>

datatype audio_graph = ContextThrows | GraphThrows | GraphBuilt

record start_env =
  sourceId :: "string option"
  screenStream :: "nat list option"
  ctx_ok :: bool
  play_ok :: bool
  canvasTracks :: "nat list"
  micStream :: "nat list option"
  sysStream :: "nat list option"
  audioGraph :: audio_graph
  destTracks :: "nat list"
  recorder_ok :: bool
  start_ok :: bool

definition setup_audio :: "nat \<Rightarrow> AppSettings \<Rightarrow> start_env \<Rightarrow> worker \<Rightarrow> nat list \<times> worker" where
  "setup_audio n st env w =
     (case audioSource st of
        Mic \<Rightarrow>
          (case micStream env of
             Some (t # ts) \<Rightarrow>
               ([t], update_session n (\<lambda>s. s\<lparr>s_micStreamRef := Some (t # ts)\<rparr>) w)
           | _ \<Rightarrow> ([], log_w ''Mic failed'' w))
      | SystemAudio \<Rightarrow>
          (case sysStream env of
             None \<Rightarrow> ([], log_w ''System audio failed'' w)
           | Some ts \<Rightarrow>
               (let w1 = update_session n (\<lambda>s. s\<lparr>s_sysStreamRef := Some ts\<rparr>) w in
                case audioGraph env of
                  GraphBuilt \<Rightarrow>
                    (take 1 (destTracks env),
                     update_session n (\<lambda>s. s\<lparr>s_audioCtxRef := Some True\<rparr>) w1)
                | GraphThrows \<Rightarrow>
                    ([], log_w ''Web Audio Context setup failed''
                           (update_session n (\<lambda>s. s\<lparr>s_audioCtxRef := Some True\<rparr>) w1))
                | ContextThrows \<Rightarrow>
                    ([], log_w ''Web Audio Context setup failed'' w1)))
      | NoAudio \<Rightarrow> ([], w))"

definition handleStart_rest :: "WorkerRect \<Rightarrow> AppSettings \<Rightarrow> start_env \<Rightarrow> worker \<Rightarrow> worker" where
  "handleStart_rest rect st env w =
     (if \<not> truthy_url (sourceId env) then log_w ''Worker Error: No source ID'' w
      else
        case screenStream env of
          None \<Rightarrow> log_w ''Worker Error: getUserMedia'' w
        | Some screenTracks \<Rightarrow>
            (let w1 = log_w ''Scaling'' (log_w ''Worker getUserMedia success'' w);
                 cw = canvas_dim (rect_width rect);
                 ch = canvas_dim (rect_height rect)
             in if \<not> ctx_ok env then log_w ''Worker Error: Canvas context failed'' w1
                else
                  (let n = next_session w1;
                       w2 = w1\<lparr>canvasRef := Some (cw, ch), videoRef := Some n\<rparr>
                   in if \<not> play_ok env then log_w ''Worker Error: play'' w2
                      else
                        (let s0 = \<lparr> s_rect = rect, s_sourceScale = sourceScale rect,
                                    s_canvas_width = cw, s_canvas_height = ch,
                                    s_screenTracks = screenTracks,
                                    s_sysStreamRef = None, s_micStreamRef = None,
                                    s_audioCtxRef = None,
                                    s_video_paused = False, s_video_ended = False,
                                    s_video_srcObject = True,
                                    s_recorder = None, s_stop_pending = False \<rparr>;
                             w3 = w2\<lparr>sessions := (sessions w2)(n \<mapsto> s0),
                                     next_session := Suc n\<rparr>;
                             w4 = draw n w3;
                             (audioTracks, w5) = setup_audio n st env w4;
                             w6 = w5\<lparr>streamRef := Some (canvasTracks env @ audioTracks)\<rparr>
                         in if \<not> recorder_ok env then log_w ''Worker Error: MediaRecorder'' w6
                            else
                              (let w7 = log_w ''Chunks cleared for new recording''
                                          ((update_session n
                                              (\<lambda>s. s\<lparr>s_recorder := Some Inactive\<rparr>) w6)
                                             \<lparr>chunksRef := []\<rparr>);
                                   w8 = w7\<lparr>mediaRecorderRef := Some n\<rparr>
                               in if \<not> start_ok env then log_w ''Worker Error: start'' w8
                                  else log_w ''Recording started''
                                         (update_session n
                                            (\<lambda>s. s\<lparr>s_recorder := Some Recording\<rparr>) w8))))))"

definition handleStop :: "worker \<Rightarrow> worker_error + worker" where
  "handleStop w =
     (let w1 = log_w ''Chunks count'' (log_w ''handleStop called.'' w) in
      if recorder_active w1
      then (case MediaRecorder_stop (the (mediaRecorderRef w1)) w1 of
              Inl e \<Rightarrow> Inl e
            | Inr w2 \<Rightarrow> Inr (log_w ''Recorder stop() called'' w2))
      else Inr (log_w ''WARNING: Recorder already inactive or null, cannot stop'' w1))"

text \<open>
  The events of the worker: the two parts of \<open>handleStart\<close>, \<open>handleStop\<close>, the delivery
  of a stopped recorder's queued events (the final data, then \<open>stop\<close>), a timeout firing,
  and the video element of a session pausing, resuming or ending. The worker's code
  does not order these events: any of them may come next. A timeout that fires is no
  longer pending (it leaves the map of timers as \<open>clearTimeout\<close> would remove it) and
  runs the \<open>draw\<close> of its session; the delivery of queued recorder events happens once
  per \<open>stop()\<close>.
\<close>

datatype worker_event =
    StartBegin
  | StartRest WorkerRect AppSettings start_env
  | StopCmd
  | RecorderFlush nat "nat list"
  | TimerFire nat
  | VideoPaused nat bool
  | VideoEnded nat

definition stop_pending :: "worker \<Rightarrow> nat \<Rightarrow> bool" where
  "stop_pending w n = (case sessions w n of None \<Rightarrow> False | Some s \<Rightarrow> s_stop_pending s)"

fun worker_step :: "worker_event \<Rightarrow> worker \<Rightarrow> worker" where
  "worker_step StartBegin w = handleStart_cleanup w"
| "worker_step (StartRest rect st env) w = handleStart_rest rect st env w"
| "worker_step StopCmd w = (case handleStop w of Inr w' \<Rightarrow> w' | Inl _ \<Rightarrow> w)"
| "worker_step (RecorderFlush n d) w =
     (if stop_pending w n
      then onstop n (ondataavailable n d
             (update_session n (\<lambda>s. s\<lparr>s_stop_pending := False\<rparr>) w))
      else w)"
| "worker_step (TimerFire t) w =
     (case timers w t of
        None \<Rightarrow> w
      | Some n \<Rightarrow> draw n (clearTimeout t w))"
| "worker_step (VideoPaused n b) w = update_session n (\<lambda>s. s\<lparr>s_video_paused := b\<rparr>) w"
| "worker_step (VideoEnded n) w = update_session n (\<lambda>s. s\<lparr>s_video_ended := True\<rparr>) w"

fun worker_run :: "worker_event list \<Rightarrow> worker \<Rightarrow> worker" where
  "worker_run [] w = w"
| "worker_run (e # es) w = worker_run es (worker_step e w)"

section \<open>The recorder window as the orchestrator runs it\<close>



definition fresh_worker :: "nat \<Rightarrow> worker" where
  "fresh_worker k = worker_initial\<lparr>next_session := k\<rparr>"






section \<open>Notions used to state the properties\<close>

text \<open>
  The mouse policy that the click-through effect asks for, as a function of its three
  dependencies, and the guard under which hovering the control bar calls
  \<open>setIgnoreMouseEvents\<close>.
\<close>

definition click_policy :: "mode \<times> bool \<times> string option \<Rightarrow> mouse_policy" where
  "click_policy deps =
     (case deps of (md, active, url) \<Rightarrow>
        apply_calls CaptureMouse [clickThroughEffect md active url])"

definition hover_effective :: "selector_state \<Rightarrow> bool" where
  "hover_effective st = (controls_rendered st \<and> sel_mode st = Record \<and> isRecordingActive st)"

text \<open>
  A whole number of pixels, below \<open>2 ^ 24\<close> in magnitude: the sizes and coordinates of
  screens, images and selections.
\<close>

definition pixel_count :: "rat \<Rightarrow> bool" where
  "pixel_count v = (of_int \<lfloor>v\<rfloor> = v \<and> \<bar>v\<bar> \<le> 2 ^ 24)"





definition frames_of :: "nat \<Rightarrow> worker \<Rightarrow> frame list" where
  "frames_of n w = filter (\<lambda>f. f_session f = n) (frames w)"

definition no_tick_pending :: "nat \<Rightarrow> worker \<Rightarrow> bool" where
  "no_tick_pending n w = (\<forall>t. timers w t \<noteq> Some n)"





section \<open>The specification's wording, for comparison\<close>

text \<open>
  The specification says that a still image is written in the configured still format:
  the file name it asks for ends in the extension of \<open>imageFormat\<close>.
\<close>

definition format_extension :: "image_format \<Rightarrow> string" where
  "format_extension f = (case f of Png \<Rightarrow> ''png'' | Jpg \<Rightarrow> ''jpg'')"

definition spec_still_file_path :: "AppSettings \<Rightarrow> string \<Rightarrow> string" where
  "spec_still_file_path st stamp =
     path_join (savePath st) (''screenshot-'' @ stamp @ ''.'' @ format_extension (imageFormat st))"


section \<open>Example inputs\<close>

definition example_display :: capture_env where
  "example_display =
     \<lparr> display_width = 1920, display_height = 1080,
       sources = [\<lparr> img_id = 0, img_width = 3840, img_height = 2160 \<rparr>],
       now_iso = ''2026-01-02T03:04:05.678Z'', write_ok = True \<rparr>"

definition example_settings :: "image_format \<Rightarrow> video_format \<Rightarrow> AppSettings" where
  "example_settings imf vf =
     \<lparr> savePath = ''/home/u/Desktop'', imageFormat = imf, videoFormat = vf,
       audioSource = SystemAudio, frameRate = 60, shortcutMode = Standard \<rparr>"

definition example_main :: "image_format \<Rightarrow> video_format \<Rightarrow> main_state" where
  "example_main imf vf =
     \<lparr> settings = example_settings imf vf, isRecording = False, selectorWindow = True,
       clipboard = None, fs = Map.empty, notices = [] \<rparr>"

definition example_rect :: SelectionRect where
  "example_rect = \<lparr> rect_x = 100, rect_y = 100, rect_width = 200, rect_height = 150 \<rparr>"

definition example_finish :: "transcode_result \<Rightarrow> finish_env" where
  "example_finish tr =
     \<lparr> fin_now_iso = ''2026-01-02T03:04:05.678Z'', webm_write_ok = True, transcode = tr,
       debug_append_ok = True \<rparr>"

definition example_worker_rect :: "rat option \<Rightarrow> WorkerRect" where
  "example_worker_rect sf =
     \<lparr> rect_x = 10, rect_y = 20, rect_width = 101, rect_height = 51, scaleFactor = sf \<rparr>"

definition example_start_env :: "nat \<Rightarrow> start_env" where
  "example_start_env k =
     \<lparr> sourceId = Some ''screen:0:0'', screenStream = Some [k], ctx_ok = True, play_ok = True,
       canvasTracks = [k + 1], micStream = None, sysStream = Some [k + 2, k + 3],
       audioGraph = GraphBuilt, destTracks = [k + 4], recorder_ok = True,
       start_ok = True \<rparr>"

definition example_session1 :: "worker_event list" where
  "example_session1 =
     [StartBegin,
      StartRest (example_worker_rect (Some 2)) (example_settings Png Mp4) (example_start_env 10)]"


definition example_recording_overlay :: "selector_state \<times> mouse_policy" where
  "example_recording_overlay =
     overlay_run [MouseDown 0 (10, 10), MouseMove (210, 160), MouseUp 0, ClickStart]
       (overlay_mount Record True)"

definition example_w0 :: worker where
  "example_w0 = worker_run example_session1 worker_initial"



section \<open>Properties\<close>

subsection \<open>Numbers\<close>

lemma Math_round_nearest: "\<bar>of_int (Math_round v) - v\<bar> \<le> 1 / 2"
  unfolding Math_round_def by linarith

lemma Math_round_of_int: "Math_round (of_int k) = k"
  unfolding Math_round_def by (rule floor_unique) simp_all

lemma Math_round_numeral: "Math_round (numeral k) = numeral k"
  using Math_round_of_int[of "numeral k"] by simp

lemma roundTiesToEven_near: "\<bar>of_int (roundTiesToEven t) - t\<bar> \<le> 1 / 2"
proof -
  have "of_int \<lfloor>t\<rfloor> \<le> t" "t < of_int \<lfloor>t\<rfloor> + 1" by linarith+
  then show ?thesis unfolding roundTiesToEven_def Let_def by (simp split: if_splits)
qed

lemma binade_le:
  assumes "q \<noteq> 0"
  shows "2 powi (binade q) \<le> \<bar>q\<bar>"
proof -
  obtain a b where ab: "quotient_of \<bar>q\<bar> = (a, b)" by (cases "quotient_of \<bar>q\<bar>")
  have b: "0 < b" using ab by (rule quotient_of_denom_pos)
  have q: "\<bar>q\<bar> = of_int a / of_int b" using ab by (rule quotient_of_div)
  have "0 < of_int a / (of_int b :: rat)" using assms q by simp
  then have a: "0 < a" using b by (simp add: zero_less_divide_iff)
  let ?k = "bitlen a - bitlen b"
  show ?thesis
  proof (cases "2 powi ?k \<le> \<bar>q\<bar>")
    case True
    then show ?thesis by (simp add: binade_def ab)
  next
    case False
    have la: "1 \<le> bitlen a" "1 \<le> bitlen b"
      using a b bitlen_eq_zero_iff[of a] bitlen_eq_zero_iff[of b] bitlen_nonneg[of a] bitlen_nonneg[of b]
      by linarith+
    have "(2::int) ^ nat (bitlen a - 1) \<le> a" using bitlen_bounds[OF a] by simp
    then have "of_int ((2::int) ^ nat (bitlen a - 1)) \<le> (of_int a :: rat)" by (simp only: of_int_le_iff)
    then have A: "(2::rat) powi (bitlen a - 1) \<le> of_int a" using la by (simp add: power_int_def)
    have "b < (2::int) ^ nat (bitlen b)" using bitlen_bounds[OF b] by simp
    then have "(of_int b :: rat) < of_int ((2::int) ^ nat (bitlen b))" by (simp only: of_int_less_iff)
    then have B: "of_int b \<le> (2::rat) powi (bitlen b)" using la by (simp add: power_int_def)
    have "(2::rat) powi (?k - 1) = 2 powi (bitlen a - 1) / 2 powi (bitlen b)"
      using power_int_diff[of "2::rat" "bitlen a - 1" "bitlen b"] by (simp add: algebra_simps)
    also have "\<dots> \<le> of_int a / of_int b"
      using A B b a by (intro frac_le) simp_all
    finally have "(2::rat) powi (?k - 1) \<le> \<bar>q\<bar>" using q by simp
    moreover have "binade q = ?k - 1" using False by (simp add: binade_def ab)
    ultimately show ?thesis by simp
  qed
qed

lemma to_double_error: "\<bar>to_double q - q\<bar> \<le> \<bar>q\<bar> / 2 ^ 53"
proof (cases "q = 0")
  case True
  then show ?thesis by (simp add: to_double_def)
next
  case False
  define ulp :: rat where "ulp = 2 powi (binade q - 52)"
  have up: "0 < ulp" by (simp add: ulp_def)
  have "to_double q - q = ulp * (of_int (roundTiesToEven (q / ulp)) - q / ulp)"
    using False up by (simp add: to_double_def ulp_def[symmetric] Let_def algebra_simps)
  then have "\<bar>to_double q - q\<bar> = ulp * \<bar>of_int (roundTiesToEven (q / ulp)) - q / ulp\<bar>"
    using up by (simp add: abs_mult)
  also have "\<dots> \<le> ulp * (1 / 2)"
    using up roundTiesToEven_near[of "q / ulp"] by (intro mult_left_mono) simp_all
  also have "ulp * (1 / 2) = 2 powi (binade q) / 2 ^ 53"
    using power_int_diff[of "2::rat" "binade q" 53] by (simp add: ulp_def power_int_diff)
  also have "\<dots> \<le> \<bar>q\<bar> / 2 ^ 53"
    using binade_le[OF False] by (simp add: divide_right_mono)
  finally show ?thesis .
qed

lemma binade_less:
  assumes "q \<noteq> 0"
  shows "\<bar>q\<bar> < 2 powi (binade q + 1)"
proof -
  obtain a b where ab: "quotient_of \<bar>q\<bar> = (a, b)" by (cases "quotient_of \<bar>q\<bar>")
  have b: "0 < b" using ab by (rule quotient_of_denom_pos)
  have q: "\<bar>q\<bar> = of_int a / of_int b" using ab by (rule quotient_of_div)
  have "0 < of_int a / (of_int b :: rat)" using assms q by simp
  then have a: "0 < a" using b by (simp add: zero_less_divide_iff)
  let ?k = "bitlen a - bitlen b"
  show ?thesis
  proof (cases "2 powi ?k \<le> \<bar>q\<bar>")
    case False
    then have "binade q = ?k - 1" by (simp add: binade_def ab)
    then show ?thesis using False by simp
  next
    case True
    then have bq: "binade q = ?k" by (simp add: binade_def ab)
    have la: "1 \<le> bitlen a" "1 \<le> bitlen b"
      using a b bitlen_eq_zero_iff[of a] bitlen_eq_zero_iff[of b] bitlen_nonneg[of a] bitlen_nonneg[of b]
      by linarith+
    have "a < (2::int) ^ nat (bitlen a)" using bitlen_bounds[OF a] by simp
    then have "(of_int a :: rat) < of_int ((2::int) ^ nat (bitlen a))" by (simp only: of_int_less_iff)
    then have A: "of_int a < (2::rat) powi (bitlen a)" using la by (simp add: power_int_def)
    have "(2::int) ^ nat (bitlen b - 1) \<le> b" using bitlen_bounds[OF b] by simp
    then have "of_int ((2::int) ^ nat (bitlen b - 1)) \<le> (of_int b :: rat)" by (simp only: of_int_le_iff)
    then have B: "(2::rat) powi (bitlen b - 1) \<le> of_int b" using la by (simp add: power_int_def)
    have "of_int a / of_int b < (2::rat) powi (bitlen a) / 2 powi (bitlen b - 1)"
      using A B a b by (intro frac_less) simp_all
    also have "\<dots> = 2 powi (?k + 1)"
      using power_int_diff[of "2::rat" "bitlen a" "bitlen b - 1"] by (simp add: algebra_simps)
    finally show ?thesis using q bq by simp
  qed
qed

lemma scaled_round_nearest:
  fixes X I D :: int
  assumes D: "0 < D" and bound: "\<bar>X\<bar> * \<bar>I\<bar> \<le> 2 ^ 48"
  shows "\<bar>of_int (Math_round (to_double (of_int X * to_double (of_int I / of_int D))))
           - (of_int X * (of_int I / of_int D) :: rat)\<bar> \<le> 1 / 2"
proof -
  define u :: rat where "u = 1 / 2 ^ 53"
  define r :: rat where "r = of_int I / of_int D"
  define s where "s = to_double r"
  define e :: rat where "e = of_int X * r"
  define p where "p = to_double (of_int X * s)"
  have u: "0 < u" "u \<le> 1" by (simp_all add: u_def)
  have Dq: "0 < (of_int D :: rat)" using D by simp
  have s: "\<bar>s - r\<bar> \<le> \<bar>r\<bar> * u" using to_double_error[of r] by (simp add: s_def u_def)
  have xs: "\<bar>of_int X * s - e\<bar> \<le> \<bar>e\<bar> * u"
  proof -
    have "\<bar>of_int X * s - e\<bar> = \<bar>of_int X\<bar> * \<bar>s - r\<bar>"
      by (simp add: e_def abs_mult[symmetric] algebra_simps)
    also have "\<dots> \<le> \<bar>of_int X\<bar> * (\<bar>r\<bar> * u)" using s by (intro mult_left_mono) simp_all
    finally show ?thesis by (simp add: e_def abs_mult algebra_simps)
  qed
  have xs2: "\<bar>of_int X * s\<bar> \<le> \<bar>e\<bar> * 2"
  proof -
    have "\<bar>of_int X * s\<bar> \<le> \<bar>e\<bar> + \<bar>e\<bar> * u" using xs by linarith
    also have "\<dots> \<le> \<bar>e\<bar> + \<bar>e\<bar> * 1" using u by (intro add_left_mono mult_left_mono) simp_all
    finally show ?thesis by simp
  qed
  have "\<bar>p - of_int X * s\<bar> \<le> \<bar>of_int X * s\<bar> * u"
    using to_double_error[of "of_int X * s"] by (simp add: p_def u_def)
  also have "\<dots> \<le> (\<bar>e\<bar> * 2) * u" using xs2 u by (intro mult_right_mono) simp_all
  finally have "\<bar>p - e\<bar> \<le> \<bar>e\<bar> * 3 * u" using xs by linarith
  moreover have eb: "\<bar>e\<bar> \<le> 2 ^ 48 / of_int D"
  proof -
    have "\<bar>e\<bar> = of_int (\<bar>X\<bar> * \<bar>I\<bar>) / of_int D"
      using Dq by (simp add: e_def r_def abs_mult)
    also have "\<dots> \<le> of_int (2 ^ 48) / of_int D"
    proof (rule divide_right_mono)
      show "(of_int (\<bar>X\<bar> * \<bar>I\<bar>) :: rat) \<le> of_int (2 ^ 48)"
        using bound by (simp only: of_int_le_iff)
      show "0 \<le> (of_int D :: rat)" using Dq by simp
    qed
    finally show ?thesis by simp
  qed
  ultimately have "\<bar>p - e\<bar> \<le> (2 ^ 48 / of_int D) * 3 * u"
    using u by (meson mult_right_mono order_trans less_imp_le zero_le_numeral)
  also have "\<dots> = 3 / 32 / of_int D" by (simp add: u_def)
  finally have pe: "\<bar>p - e\<bar> \<le> 3 / 32 / of_int D" .
  have small: "3 / 32 / of_int D < 1 / (2 * (of_int D :: rat))"
    using Dq by (simp add: field_simps)
  define m where "m = \<lfloor>e + 1 / 2\<rfloor>"
  define c where "c = \<lfloor>p + 1 / 2\<rfloor>"
  define T where "T = 2 * X * I + D"
  have T: "of_int T = 2 * of_int D * (e + 1 / 2)"
    using Dq by (simp add: T_def e_def r_def field_simps)
  have m1: "of_int m \<le> e + 1 / 2" and m2: "e + 1 / 2 < of_int m + 1"
    unfolding m_def by linarith+
  have "of_int (2 * D * m) \<le> (of_int T :: rat)"
    using m1 Dq unfolding T by (simp add: mult_left_mono)
  then have t1: "2 * D * m \<le> T" by (simp only: of_int_le_iff)
  have "(of_int T :: rat) < of_int (2 * D * (m + 1))"
    using m2 Dq unfolding T by (simp add: mult_strict_left_mono)
  then have "T < 2 * D * (m + 1)" by (simp only: of_int_less_iff)
  then have t2: "T + 1 \<le> 2 * D * (m + 1)" by simp
  have up: "e + 1 / 2 \<le> of_int m + 1 - 1 / (2 * of_int D)"
  proof -
    have "(of_int (T + 1) :: rat) \<le> of_int (2 * D * (m + 1))" using t2 by (simp only: of_int_le_iff)
    then have "2 * of_int D * (e + 1 / 2) + 1 \<le> 2 * of_int D * (of_int m + 1)"
      using T by simp
    then show ?thesis using Dq by (simp add: field_simps)
  qed
  have c_le: "c \<le> m"
  proof -
    have "p + 1 / 2 < of_int m + 1" using up pe small by linarith
    then show ?thesis unfolding c_def by linarith
  qed
  have near_m: "\<bar>of_int m - e\<bar> \<le> 1 / 2" using m1 m2 by linarith
  show ?thesis
  proof (cases "T = 2 * D * m")
    case True
    then have "(of_int T :: rat) = of_int (2 * D * m)" by simp
    then have "2 * of_int D * (e + 1 / 2) = 2 * of_int D * of_int m" using T by simp
    then have em: "e + 1 / 2 = of_int m" using Dq by simp
    have "(1::rat) \<le> of_int D" using D by simp
    then have "3 / 32 / of_int D < (1::rat)" using Dq by (simp add: field_simps)
    then have "of_int (m - 1) \<le> p + 1 / 2" using pe em by simp
    then have "m - 1 \<le> c" unfolding c_def by linarith
    then have "c = m \<or> c = m - 1" using c_le by linarith
    then have "\<bar>of_int c - e\<bar> \<le> 1 / 2" using em by auto
    then show ?thesis by (simp add: c_def p_def s_def r_def e_def Math_round_def)
  next
    case False
    then have "2 * D * m + 1 \<le> T" using t1 by simp
    then have "(of_int (2 * D * m + 1) :: rat) \<le> of_int T" by (simp only: of_int_le_iff)
    then have "2 * of_int D * of_int m + 1 \<le> 2 * of_int D * (e + 1 / 2)" using T by simp
    then have "of_int m + 1 / (2 * of_int D) \<le> e + 1 / 2" using Dq by (simp add: field_simps)
    then have "of_int m \<le> p + 1 / 2" using pe small by linarith
    then have "m \<le> c" unfolding c_def by linarith
    then have "c = m" using c_le by simp
    then show ?thesis using near_m by (simp add: c_def p_def s_def r_def e_def Math_round_def)
  qed
qed

lemma scaled_coordinate_example: "Math_round (js_mul 50 (to_double (23 / 20))) = 57"
  by code_simp

lemma near_int:
  assumes "\<bar>(of_int c :: rat) - of_int k\<bar> \<le> 1 / 2"
  shows "c = k"
proof -
  have "\<bar>(of_int (c - k) :: rat)\<bar> < of_int 1" using assms by simp
  then have "(of_int \<bar>c - k\<bar> :: rat) < of_int 1" by (simp only: of_int_abs)
  then have "\<bar>c - k\<bar> < 1" by (simp only: of_int_less_iff)
  then show ?thesis by simp
qed

lemma crop_component_nearest:
  assumes "pixel_count v" and "pixel_count i" and "pixel_count d" and "0 < d"
  shows "\<bar>of_int (Math_round (js_mul v (to_double (i / d)))) - v * (i / d)\<bar> \<le> 1 / 2"
proof -
  define X I D where "X = \<lfloor>v\<rfloor>" and "I = \<lfloor>i\<rfloor>" and "D = \<lfloor>d\<rfloor>"
  have v: "v = of_int X" and i: "i = of_int I" and d: "d = of_int D"
    using assms(1,2,3) by (auto simp add: pixel_count_def X_def I_def D_def)
  have D: "0 < D" using assms(4) d by simp
  have "\<bar>v\<bar> * \<bar>i\<bar> \<le> 2 ^ 24 * 2 ^ 24"
    using assms(1,2) by (intro mult_mono) (simp_all add: pixel_count_def)
  then have "(of_int (\<bar>X\<bar> * \<bar>I\<bar>) :: rat) \<le> of_int (2 ^ 48)" by (simp add: v i)
  then have "\<bar>X\<bar> * \<bar>I\<bar> \<le> 2 ^ 48" by (simp only: of_int_le_iff)
  from scaled_round_nearest[OF D this] show ?thesis by (simp add: js_mul_def v i d)
qed

lemma ToInt32_id: "- (2 ^ 31) \<le> n \<Longrightarrow> n < 2 ^ 31 \<Longrightarrow> ToInt32 n = n"
  unfolding ToInt32_def by (simp add: mod_pos_pos_trivial)

lemma and_minus_two: "(k::int) AND - 2 = 2 * (k div 2)"
  by (subst and_int_rec) simp

lemma canvas_dim_eq:
  assumes "0 \<le> v" "v < 2 ^ 31"
  shows "canvas_dim v = 2 * (\<lfloor>v\<rfloor> div 2)"
proof -
  have lo: "- (2 ^ 31) \<le> \<lfloor>v\<rfloor>" using assms(1) by (simp add: order_trans[of _ 0]) 
  have hi: "\<lfloor>v\<rfloor> < 2 ^ 31" using assms(2) by (simp add: floor_less_iff)
  have "ToInt32 1 = 1" by (simp add: ToInt32_def)
  then have "js_not 1 = - 2" by (simp add: js_not_def)
  moreover have "ToInt32 (- 2) = - 2" by (simp add: ToInt32_def)
  ultimately show ?thesis
    using ToInt32_id[OF lo hi] by (simp add: canvas_dim_def outputScale_def js_and_def Math_floor_def and_minus_two)
qed

subsection \<open>Still capture\<close>

lemma crop_tie_below_half:
  "cropRect \<lparr> rect_x = 800, rect_y = 0, rect_width = 800, rect_height = 600 \<rparr>
     \<lparr> img_id = 0, img_width = 1999, img_height = 1200 \<rparr> 1600 1200
   = Some \<lparr> crop_x = 999, crop_y = 0, crop_width = 999, crop_height = 600 \<rparr>"
  by code_simp

text \<open>
  C3. For a selection, an image and a display whose sizes and coordinates are whole
  numbers of pixels (below \<open>2 ^ 24\<close>), the display's size being positive, the crop
  rectangle of \<open>capture-region\<close> is, componentwise, \<open>Math.round\<close> of the selection times
  the scale, the scale being physical image size over logical display size, all computed
  in the arithmetic of JavaScript numbers; each component is an integer nearest to the
  exact scaled value (within one half of it); and this is the rectangle that is cropped
  and copied. With an image twice the display's size, the selection
  \<open>{100, 100, 200, 150}\<close> gives \<open>{200, 200, 400, 300}\<close>.
\<close>

theorem capture_region_crop_scaled_rounded:
  assumes "pixel_count (rect_x rect)" and "pixel_count (rect_y rect)"
    and "pixel_count (rect_width rect)" and "pixel_count (rect_height rect)"
    and "pixel_count (img_width img)" and "pixel_count (img_height img)"
    and "pixel_count (display_width env)" and "0 < display_width env"
    and "pixel_count (display_height env)" and "0 < display_height env"
    and "sources env = img # others"
  shows "\<exists>cr. cropRect rect img (display_width env) (display_height env) = Some cr
           \<and> (\<exists>scaleX scaleY.
                 js_div (img_width img) (display_width env) = Some scaleX
                 \<and> js_div (img_height img) (display_height env) = Some scaleY
                 \<and> crop_x cr = Math_round (js_mul (rect_x rect) scaleX)
                 \<and> crop_y cr = Math_round (js_mul (rect_y rect) scaleY)
                 \<and> crop_width cr = Math_round (js_mul (rect_width rect) scaleX)
                 \<and> crop_height cr = Math_round (js_mul (rect_height rect) scaleY))
           \<and> \<bar>of_int (crop_x cr) - rect_x rect * (img_width img / display_width env)\<bar> \<le> 1 / 2
           \<and> \<bar>of_int (crop_y cr) - rect_y rect * (img_height img / display_height env)\<bar> \<le> 1 / 2
           \<and> \<bar>of_int (crop_width cr) - rect_width rect * (img_width img / display_width env)\<bar> \<le> 1 / 2
           \<and> \<bar>of_int (crop_height cr) - rect_height rect * (img_height img / display_height env)\<bar> \<le> 1 / 2
           \<and> capture_region rect Clipboard env m =
                 (Inr ''success'',
                  m\<lparr>selectorWindow := False,
                    clipboard := Some \<lparr> crop_source = img, crop_rect = cr \<rparr>,
                    notices := notices m @ [NoteCopied]\<rparr>)
           \<and> (img_width img = 2 * display_width env \<and> img_height img = 2 * display_height env
                 \<and> rect = example_rect
               \<longrightarrow> cr = \<lparr> crop_x = 200, crop_y = 200, crop_width = 400, crop_height = 300 \<rparr>)"
proof -
  let ?sx = "to_double (img_width img / display_width env)"
  let ?sy = "to_double (img_height img / display_height env)"
  let ?cr = "\<lparr> crop_x = Math_round (js_mul (rect_x rect) ?sx),
               crop_y = Math_round (js_mul (rect_y rect) ?sy),
               crop_width = Math_round (js_mul (rect_width rect) ?sx),
               crop_height = Math_round (js_mul (rect_height rect) ?sy) \<rparr>"
  have dx: "js_div (img_width img) (display_width env) = Some ?sx"
    and dy: "js_div (img_height img) (display_height env) = Some ?sy"
    using assms(8,10) by (simp_all add: js_div_def)
  have c: "cropRect rect img (display_width env) (display_height env) = Some ?cr"
    using dx dy by (simp add: cropRect_def)
  have cap: "capture_region rect Clipboard env m =
                 (Inr ''success'',
                  m\<lparr>selectorWindow := False,
                    clipboard := Some \<lparr> crop_source = img, crop_rect = ?cr \<rparr>,
                    notices := notices m @ [NoteCopied]\<rparr>)"
    using assms(11) c by (simp add: capture_region_def)
  have code: "\<exists>scaleX scaleY.
                 js_div (img_width img) (display_width env) = Some scaleX
                 \<and> js_div (img_height img) (display_height env) = Some scaleY
                 \<and> crop_x ?cr = Math_round (js_mul (rect_x rect) scaleX)
                 \<and> crop_y ?cr = Math_round (js_mul (rect_y rect) scaleY)
                 \<and> crop_width ?cr = Math_round (js_mul (rect_width rect) scaleX)
                 \<and> crop_height ?cr = Math_round (js_mul (rect_height rect) scaleY)"
    using dx dy by (intro exI[of _ ?sx] exI[of _ ?sy]) (simp only: CropRect.select_convs simp_thms)
  have near: "\<bar>of_int (crop_x ?cr) - rect_x rect * (img_width img / display_width env)\<bar> \<le> 1 / 2"
    "\<bar>of_int (crop_y ?cr) - rect_y rect * (img_height img / display_height env)\<bar> \<le> 1 / 2"
    "\<bar>of_int (crop_width ?cr) - rect_width rect * (img_width img / display_width env)\<bar> \<le> 1 / 2"
    "\<bar>of_int (crop_height ?cr) - rect_height rect * (img_height img / display_height env)\<bar> \<le> 1 / 2"
    using crop_component_nearest[OF assms(1) assms(5) assms(7) assms(8)]
      crop_component_nearest[OF assms(2) assms(6) assms(9) assms(10)]
      crop_component_nearest[OF assms(3) assms(5) assms(7) assms(8)]
      crop_component_nearest[OF assms(4) assms(6) assms(9) assms(10)]
    by (simp_all only: CropRect.select_convs)
  have ex: "img_width img = 2 * display_width env \<and> img_height img = 2 * display_height env
                 \<and> rect = example_rect
               \<longrightarrow> ?cr = \<lparr> crop_x = 200, crop_y = 200, crop_width = 400, crop_height = 300 \<rparr>"
  proof (intro impI, elim conjE)
    assume w: "img_width img = 2 * display_width env"
      and h: "img_height img = 2 * display_height env" and r: "rect = example_rect"
    have "\<bar>of_int (crop_x ?cr) - (of_int 200 :: rat)\<bar> \<le> 1 / 2"
      "\<bar>of_int (crop_y ?cr) - (of_int 200 :: rat)\<bar> \<le> 1 / 2"
      "\<bar>of_int (crop_width ?cr) - (of_int 400 :: rat)\<bar> \<le> 1 / 2"
      "\<bar>of_int (crop_height ?cr) - (of_int 300 :: rat)\<bar> \<le> 1 / 2"
      using near assms(8,10) by (simp_all add: w h r example_rect_def)
    then have "crop_x ?cr = 200" "crop_y ?cr = 200" "crop_width ?cr = 400" "crop_height ?cr = 300"
      by (simp_all only: near_int)
    then show "?cr = \<lparr> crop_x = 200, crop_y = 200, crop_width = 400, crop_height = 300 \<rparr>"
      by (simp only: CropRect.select_convs)
  qed
  from c code near cap ex show ?thesis
    by (intro exI[of _ ?cr] conjI)
qed

theorem capture_region_crop_scaled_rounded_witness:
  "cropRect example_rect \<lparr> img_id = 0, img_width = 3840, img_height = 2160 \<rparr> 1920 1080
     = Some \<lparr> crop_x = 200, crop_y = 200, crop_width = 400, crop_height = 300 \<rparr>
   \<and> clipboard (snd (capture_region example_rect Clipboard example_display (example_main Png Mp4)))
     = Some \<lparr> crop_source = \<lparr> img_id = 0, img_width = 3840, img_height = 2160 \<rparr>,
              crop_rect = \<lparr> crop_x = 200, crop_y = 200, crop_width = 400, crop_height = 300 \<rparr> \<rparr>"
proof -
  let ?img = "\<lparr> img_id = 0, img_width = 3840, img_height = 2160 \<rparr>"
  have a: "pixel_count (rect_x example_rect)" "pixel_count (rect_y example_rect)"
    "pixel_count (rect_width example_rect)" "pixel_count (rect_height example_rect)"
    by (simp_all add: pixel_count_def example_rect_def)
  have b: "pixel_count (img_width ?img)" "pixel_count (img_height ?img)"
    by (simp_all add: pixel_count_def)
  have d: "pixel_count (display_width example_display)" "0 < display_width example_display"
    "pixel_count (display_height example_display)" "0 < display_height example_display"
    by (simp_all add: pixel_count_def example_display_def)
  have s: "sources example_display = ?img # []" by (simp add: example_display_def)
  have t: "img_width ?img = 2 * display_width example_display
           \<and> img_height ?img = 2 * display_height example_display \<and> example_rect = example_rect"
    by (simp add: example_display_def)
  from capture_region_crop_scaled_rounded[OF a b d s, of "example_main Png Mp4"] t
  obtain cr where
    "cropRect example_rect ?img (display_width example_display) (display_height example_display)
       = Some cr"
    and "capture_region example_rect Clipboard example_display (example_main Png Mp4) =
           (Inr ''success'',
            (example_main Png Mp4)\<lparr>selectorWindow := False,
               clipboard := Some \<lparr> crop_source = ?img, crop_rect = cr \<rparr>,
               notices := notices (example_main Png Mp4) @ [NoteCopied]\<rparr>)"
    and "cr = \<lparr> crop_x = 200, crop_y = 200, crop_width = 400, crop_height = 300 \<rparr>"
    by blast
  then show ?thesis by (simp add: example_display_def)
qed

lemma ts_ex: "timestamp_of ''2026-01-02T03:04:05.678Z'' = ''2026-01-02T03-04-05-678Z''"
  by (simp add: timestamp_of_def)

lemma timestamp_of_chars: "CHR '':'' \<notin> set (timestamp_of t) \<and> CHR ''.'' \<notin> set (timestamp_of t)"
  by (auto simp add: timestamp_of_def dest!: set_takeWhileD split: if_splits)

text \<open>
  C9. The specification asks that a file-mode capture be saved in the configured image
  format, with the matching extension. With \<open>imageFormat = jpg\<close> the handler writes exactly one file,
  a PNG named \<open>screenshot-<timestamp>.png\<close>, and nothing at the path with the \<open>jpg\<close>
  extension.
\<close>

theorem still_file_format_counterexample:
  "imageFormat (settings (example_main Jpg Mp4)) = Jpg
   \<and> fst (capture_region example_rect File example_display (example_main Jpg Mp4)) = Inr ''success''
   \<and> fs (snd (capture_region example_rect File example_display (example_main Jpg Mp4)))
        (spec_still_file_path (settings (example_main Jpg Mp4))
           (timestamp_of (now_iso example_display))) = None
   \<and> dom (fs (snd (capture_region example_rect File example_display (example_main Jpg Mp4))))
        = {''/home/u/Desktop/screenshot-2026-01-02T03-04-05-678Z.png''}"
  by (simp add: capture_region_def example_main_def example_settings_def example_display_def
      example_rect_def cropRect_def js_div_def spec_still_file_path_def format_extension_def
      path_join_def ts_ex)

text \<open>
  C9, as the handler does it: every file-mode capture that succeeds adds exactly one file,
  the PNG encoding of the cropped image, at \<open>screenshot-<timestamp>.png\<close> under the
  configured save directory, whatever \<open>imageFormat\<close> is; the timestamp contains neither a
  colon nor a dot.
\<close>

theorem still_file_always_png:
  assumes "capture_region rect File env m = (Inr r, m')"
  shows "\<exists>img others cr. sources env = img # others
           \<and> cropRect rect img (display_width env) (display_height env) = Some cr
           \<and> fs m' = (fs m)(path_join (savePath (settings m))
                               (''screenshot-'' @ timestamp_of (now_iso env) @ ''.png'')
                             \<mapsto> PNGData \<lparr> crop_source = img, crop_rect = cr \<rparr>)
           \<and> CHR '':'' \<notin> set (timestamp_of (now_iso env))
           \<and> CHR ''.'' \<notin> set (timestamp_of (now_iso env))"
  using assms timestamp_of_chars[of "now_iso env"]
  by (auto simp add: capture_region_def Let_def split: list.splits option.splits if_splits)


theorem still_file_always_png_witness:
  "fs (snd (capture_region example_rect File example_display (example_main Jpg Mp4)))
     = [''/home/u/Desktop/screenshot-2026-01-02T03-04-05-678Z.png'' \<mapsto>
          PNGData \<lparr> crop_source = \<lparr> img_id = 0, img_width = 3840, img_height = 2160 \<rparr>,
                    crop_rect = \<lparr> crop_x = 200, crop_y = 200, crop_width = 400,
                                  crop_height = 300 \<rparr> \<rparr>]"
proof -
  have h: "capture_region example_rect File example_display (example_main Jpg Mp4)
             = (Inr ''success'',
                snd (capture_region example_rect File example_display (example_main Jpg Mp4)))"
    by (simp add: capture_region_def example_display_def cropRect_def js_div_def)
  have c: "cropRect example_rect \<lparr> img_id = 0, img_width = 3840, img_height = 2160 \<rparr> 1920 1080
             = Some \<lparr> crop_x = 200, crop_y = 200, crop_width = 400, crop_height = 300 \<rparr>"
    by code_simp
  from still_file_always_png[OF h] c show ?thesis
    by (auto simp add: example_display_def example_main_def example_settings_def path_join_def ts_ex)
qed

subsection \<open>Finishing a recording\<close>

text \<open>
  C10. When the buffer is not empty, the WebM file can be written, the configured format
  is MP4 and the transcoding block fails, the handler returns normally, the WebM file
  holds the recorded bytes, and the last notification says that transcoding failed and
  the WebM was saved.
\<close>

theorem transcode_failure_keeps_webm:
  assumes "b \<noteq> []" and "webm_write_ok env" and "videoFormat (settings m) = Mp4"
    and "transcode env = TranscodeError msg partial"
  shows "fst (recording_finished (Some b) env m) = Inr ()
         \<and> fs (snd (recording_finished (Some b) env m))
              (path_join (savePath (settings m))
                 (''recording-'' @ timestamp_of (fin_now_iso env) @ ''.webm'')) = Some (Bytes b)
         \<and> notices (snd (recording_finished (Some b) env m))
              = notices m @ [NoteSavingWriting, NoteSavingTranscoding, NoteTranscodeFailedWebmSaved]
         \<and> \<not> isRecording (snd (recording_finished (Some b) env m))"
  using assms
  by (simp add: recording_finished_def Let_def showNotification_def logDebug_def
      path_join_def split: option.splits)

theorem transcode_failure_keeps_webm_witness:
  "fst (recording_finished (Some [26, 69, 223, 163]) (example_finish (TranscodeError ''ffmpeg exited with code 1'' None))
          (example_main Png Mp4)) = Inr ()
   \<and> fs (snd (recording_finished (Some [26, 69, 223, 163])
                 (example_finish (TranscodeError ''ffmpeg exited with code 1'' None)) (example_main Png Mp4)))
        ''/home/u/Desktop/recording-2026-01-02T03-04-05-678Z.webm'' = Some (Bytes [26, 69, 223, 163])
   \<and> notices (snd (recording_finished (Some [26, 69, 223, 163])
                 (example_finish (TranscodeError ''ffmpeg exited with code 1'' None)) (example_main Png Mp4)))
        = [NoteSavingWriting, NoteSavingTranscoding, NoteTranscodeFailedWebmSaved]"
  using transcode_failure_keeps_webm[of "[26, 69, 223, 163]"
      "example_finish (TranscodeError ''ffmpeg exited with code 1'' None)" "example_main Png Mp4"
      "''ffmpeg exited with code 1''" None]
  by (simp add: example_finish_def example_main_def example_settings_def path_join_def timestamp_of_def)

subsection \<open>Fields that the worker's helpers leave alone\<close>

lemma log_w_fields [simp]:
  "chunksRef (log_w msg w) = chunksRef w" "sent (log_w msg w) = sent w"
  "sessions (log_w msg w) = sessions w" "mediaRecorderRef (log_w msg w) = mediaRecorderRef w"
  "streamRef (log_w msg w) = streamRef w" "animationFrameRef (log_w msg w) = animationFrameRef w"
  "timers (log_w msg w) = timers w" "frames (log_w msg w) = frames w"
  "stopped_tracks (log_w msg w) = stopped_tracks w" "next_timer (log_w msg w) = next_timer w"
  "next_session (log_w msg w) = next_session w" "canvasRef (log_w msg w) = canvasRef w"
  "videoRef (log_w msg w) = videoRef w"
  by (simp_all add: log_w_def)

lemma update_session_fields [simp]:
  "chunksRef (update_session n f w) = chunksRef w" "sent (update_session n f w) = sent w"
  "mediaRecorderRef (update_session n f w) = mediaRecorderRef w"
  "streamRef (update_session n f w) = streamRef w"
  "animationFrameRef (update_session n f w) = animationFrameRef w"
  "timers (update_session n f w) = timers w" "frames (update_session n f w) = frames w"
  "stopped_tracks (update_session n f w) = stopped_tracks w"
  "next_timer (update_session n f w) = next_timer w"
  "next_session (update_session n f w) = next_session w"
  "canvasRef (update_session n f w) = canvasRef w" "videoRef (update_session n f w) = videoRef w"
  "wlog (update_session n f w) = wlog w"
  by (simp_all add: update_session_def split: option.splits)

lemma stop_tracks_fields [simp]:
  "chunksRef (stop_tracks ts w) = chunksRef w" "sent (stop_tracks ts w) = sent w"
  "sessions (stop_tracks ts w) = sessions w"
  "mediaRecorderRef (stop_tracks ts w) = mediaRecorderRef w"
  "streamRef (stop_tracks ts w) = streamRef w"
  "animationFrameRef (stop_tracks ts w) = animationFrameRef w"
  "timers (stop_tracks ts w) = timers w" "frames (stop_tracks ts w) = frames w"
  "next_timer (stop_tracks ts w) = next_timer w" "next_session (stop_tracks ts w) = next_session w"
  "wlog (stop_tracks ts w) = wlog w"
  "stopped_tracks (stop_tracks ts w) = stopped_tracks w \<union> set ts"
  by (simp_all add: stop_tracks_def)

lemma clearTimeout_fields [simp]:
  "chunksRef (clearTimeout t w) = chunksRef w" "sent (clearTimeout t w) = sent w"
  "sessions (clearTimeout t w) = sessions w"
  "mediaRecorderRef (clearTimeout t w) = mediaRecorderRef w"
  "streamRef (clearTimeout t w) = streamRef w"
  "animationFrameRef (clearTimeout t w) = animationFrameRef w"
  "frames (clearTimeout t w) = frames w"
  "stopped_tracks (clearTimeout t w) = stopped_tracks w"
  "next_timer (clearTimeout t w) = next_timer w" "next_session (clearTimeout t w) = next_session w"
  "wlog (clearTimeout t w) = wlog w"
  "timers (clearTimeout t w) = (timers w)(t := None)"
  by (simp_all add: clearTimeout_def)

lemma onstop_sent:
  assumes "sessions w n = Some s"
  shows "sent (onstop n w) = sent w @
           [\<lparr> fin_session = n, fin_chunks = chunksRef w, fin_buffer = concat (map snd (chunksRef w)) \<rparr>]"
  using assms by (simp add: onstop_def Let_def split: option.splits)


lemma draw_fields [simp]:
  "chunksRef (draw n w) = chunksRef w" "sent (draw n w) = sent w"
  "sessions (draw n w) = sessions w" "mediaRecorderRef (draw n w) = mediaRecorderRef w"
  "streamRef (draw n w) = streamRef w" "canvasRef (draw n w) = canvasRef w"
  "videoRef (draw n w) = videoRef w"
  "stopped_tracks (draw n w) = stopped_tracks w" "wlog (draw n w) = wlog w"
  "next_session (draw n w) = next_session w"
  by (simp_all add: draw_def Let_def split: option.splits)

lemma setup_audio_fields [simp]:
  "chunksRef (snd (setup_audio n st env w)) = chunksRef w"
  "sent (snd (setup_audio n st env w)) = sent w"
  "mediaRecorderRef (snd (setup_audio n st env w)) = mediaRecorderRef w"
  "streamRef (snd (setup_audio n st env w)) = streamRef w"
  "canvasRef (snd (setup_audio n st env w)) = canvasRef w"
  "videoRef (snd (setup_audio n st env w)) = videoRef w"
  "animationFrameRef (snd (setup_audio n st env w)) = animationFrameRef w"
  "timers (snd (setup_audio n st env w)) = timers w"
  "frames (snd (setup_audio n st env w)) = frames w"
  "stopped_tracks (snd (setup_audio n st env w)) = stopped_tracks w"
  "next_timer (snd (setup_audio n st env w)) = next_timer w"
  "next_session (snd (setup_audio n st env w)) = next_session w"
  by (simp_all add: setup_audio_def Let_def
      split: audio_source.splits option.splits list.splits audio_graph.splits)

lemma recorder_active_wlog [simp]: "recorder_active (w\<lparr>wlog := l\<rparr>) = recorder_active w"
  by (simp add: recorder_active_def recorder_state_of_def cong: option.case_cong)

lemma recorder_active_log_w [simp]: "recorder_active (log_w msg w) = recorder_active w"
  by (simp add: log_w_def)

subsection \<open>Empty output\<close>

lemma recording_finished_empty:
  "buffer = None \<or> buffer = Some [] \<Longrightarrow>
   recording_finished buffer env m =
     (Inr (), m\<lparr>isRecording := False, notices := notices m @ [NoteRecordingFailedEmpty]\<rparr>)"
  by (auto simp add: recording_finished_def showNotification_def)

text \<open>
  C5. When the chunk list is empty as a recorder's \<open>onstop\<close> runs, the buffer handed to
  \<open>recordingFinished\<close> has length zero; on a zero-length or missing buffer the
  orchestrator clears \<open>isRecording\<close>, shows the empty-data notification and returns with
  the file system as it was.
\<close>

theorem empty_recording_writes_no_file:
  assumes "chunksRef w = []" and "sessions w n = Some s"
  shows "\<exists>f. sent (onstop n w) = sent w @ [f] \<and> fin_session f = n \<and> fin_buffer f = []
           \<and> recording_finished (Some (fin_buffer f)) env m =
                (Inr (), m\<lparr>isRecording := False, notices := notices m @ [NoteRecordingFailedEmpty]\<rparr>)
           \<and> recording_finished None env m =
                (Inr (), m\<lparr>isRecording := False, notices := notices m @ [NoteRecordingFailedEmpty]\<rparr>)
           \<and> fs (snd (recording_finished (Some (fin_buffer f)) env m)) = fs m
           \<and> fs (snd (recording_finished None env m)) = fs m"
  using assms onstop_sent[OF assms(2)] by (simp add: recording_finished_empty)

theorem empty_recording_writes_no_file_witness:
  "map fin_buffer (sent (onstop 0 (worker_run example_session1 worker_initial))) = [[]]
   \<and> fs (snd (recording_finished (Some []) (example_finish (TranscodeDone [])) (example_main Png Mp4)))
     = fs (example_main Png Mp4)"
proof -
  have h1: "chunksRef (worker_run example_session1 worker_initial) = []"
    by code_simp
  have "sessions (worker_run example_session1 worker_initial) 0 \<noteq> None"
    by code_simp
  then obtain s where h2: "sessions (worker_run example_session1 worker_initial) 0 = Some s"
    by blast
  have h3: "sent (worker_run example_session1 worker_initial) = []"
    by code_simp
  from empty_recording_writes_no_file[OF h1 h2,
      of "example_finish (TranscodeDone [])" "example_main Png Mp4"] h3
  show ?thesis by auto
qed

subsection \<open>Stopping\<close>

text \<open>
  C6. In every worker state whose recorder is null or inactive, \<open>handleStop\<close> returns
  normally and changes nothing but the log, to which it appends its two status lines and
  the warning; no buffer is sent, and a second stop request does the same again.
\<close>

theorem handleStop_idle_noop:
  assumes "\<not> recorder_active w"
  shows "handleStop w =
           Inr (w\<lparr>wlog := wlog w @ [''handleStop called.'', ''Chunks count'',
                     ''WARNING: Recorder already inactive or null, cannot stop'']\<rparr>)
         \<and> sent (worker_step StopCmd w) = sent w
         \<and> \<not> recorder_active (worker_step StopCmd w)
         \<and> worker_step StopCmd (worker_step StopCmd w) =
             (worker_step StopCmd w)\<lparr>wlog := wlog (worker_step StopCmd w) @
                [''handleStop called.'', ''Chunks count'',
                 ''WARNING: Recorder already inactive or null, cannot stop'']\<rparr>"
proof -
  have a: "handleStop w =
           Inr (w\<lparr>wlog := wlog w @ [''handleStop called.'', ''Chunks count'',
                     ''WARNING: Recorder already inactive or null, cannot stop'']\<rparr>)" if "\<not> recorder_active w" for w
    using that by (simp add: handleStop_def Let_def) (simp add: log_w_def)
  have b: "\<not> recorder_active (w\<lparr>wlog := l\<rparr>)" for l
    using assms by simp
  show ?thesis using a[OF assms] a[OF b] b by simp
qed

theorem handleStop_idle_noop_witness:
  "handleStop worker_initial =
     Inr (worker_initial\<lparr>wlog := [''Background Recorder Mounted'', ''handleStop called.'', ''Chunks count'',
            ''WARNING: Recorder already inactive or null, cannot stop'']\<rparr>)
   \<and> sent (worker_step StopCmd worker_initial) = []"
proof -
  have h: "\<not> recorder_active worker_initial" by (simp add: recorder_active_def worker_initial_def)
  show ?thesis using handleStop_idle_noop[OF h] by (simp add: worker_initial_def)
qed


subsection \<open>The compositor's canvas\<close>

lemma handleStart_rest_canvasRef:
  assumes "truthy_url (sourceId env)" and "screenStream env = Some ts" and "ctx_ok env"
  shows "canvasRef (handleStart_rest rect st env w)
           = Some (canvas_dim (rect_width rect), canvas_dim (rect_height rect))"
  using assms by (simp add: handleStart_rest_def Let_def split_def)

lemma handleStart_rest_frames:
  assumes "truthy_url (sourceId env)" and "screenStream env = Some ts" and "ctx_ok env"
    and "play_ok env"
  shows "frames (handleStart_rest rect st env w) = frames w @
                [\<lparr> f_session = next_session w,
                   f_sx = Math_round (js_mul (rect_x rect) (sourceScale rect)),
                   f_sy = Math_round (js_mul (rect_y rect) (sourceScale rect)),
                   f_sw = Math_round (js_mul (rect_width rect) (sourceScale rect)),
                   f_sh = Math_round (js_mul (rect_height rect) (sourceScale rect)),
                   f_dw = canvas_dim (rect_width rect), f_dh = canvas_dim (rect_height rect) \<rparr>]"
  using assms by (simp add: handleStart_rest_def Let_def split_def draw_def)

lemma canvas_dim_bounds:
  assumes "0 \<le> v" and "v < 2 ^ 31"
  shows "even (canvas_dim v)" and "canvas_dim v \<le> \<lfloor>v\<rfloor>" and "\<lfloor>v\<rfloor> < canvas_dim v + 2"
  using canvas_dim_eq[OF assms] by simp_all

lemma sourceScale_cases:
  "(scaleFactor rect = None \<or> scaleFactor rect = Some 0 \<longrightarrow> sourceScale rect = 1)
   \<and> (\<forall>f. scaleFactor rect = Some f \<and> f \<noteq> 0 \<longrightarrow> sourceScale rect = f)"
  by (auto simp add: sourceScale_def)

text \<open>
  C4. For a rectangle whose width and height are non-negative and below \<open>2 ^ 31\<close> (the
  range in which the 32-bit coercion of \<open>&\<close> changes nothing), the canvas of the
  compositor is the largest even number not above the floor of each dimension, so
  \<open>101 \<times> 51\<close> gives \<open>100 \<times> 50\<close>; the source scale is \<open>1\<close> when \<open>scaleFactor\<close> is absent
  or zero and the factor itself otherwise; the first frame is drawn with both.
\<close>

theorem canvas_even_and_scale_default:
  assumes "0 \<le> rect_width rect" and "rect_width rect < 2 ^ 31"
    and "0 \<le> rect_height rect" and "rect_height rect < 2 ^ 31"
    and "truthy_url (sourceId env)" and "screenStream env = Some ts" and "ctx_ok env"
  shows "canvasRef (handleStart_rest rect st env w)
           = Some (2 * (\<lfloor>rect_width rect\<rfloor> div 2), 2 * (\<lfloor>rect_height rect\<rfloor> div 2))
         \<and> even (canvas_dim (rect_width rect)) \<and> even (canvas_dim (rect_height rect))
         \<and> canvas_dim (rect_width rect) \<le> \<lfloor>rect_width rect\<rfloor>
         \<and> \<lfloor>rect_width rect\<rfloor> < canvas_dim (rect_width rect) + 2
         \<and> canvas_dim (rect_height rect) \<le> \<lfloor>rect_height rect\<rfloor>
         \<and> \<lfloor>rect_height rect\<rfloor> < canvas_dim (rect_height rect) + 2
         \<and> (rect_width rect = 101 \<and> rect_height rect = 51
              \<longrightarrow> canvasRef (handleStart_rest rect st env w) = Some (100, 50))
         \<and> (scaleFactor rect = None \<or> scaleFactor rect = Some 0 \<longrightarrow> sourceScale rect = 1)
         \<and> (\<forall>f. scaleFactor rect = Some f \<and> f \<noteq> 0 \<longrightarrow> sourceScale rect = f)
         \<and> (play_ok env \<longrightarrow>
              frames (handleStart_rest rect st env w) = frames w @
                [\<lparr> f_session = next_session w,
                   f_sx = Math_round (js_mul (rect_x rect) (sourceScale rect)),
                   f_sy = Math_round (js_mul (rect_y rect) (sourceScale rect)),
                   f_sw = Math_round (js_mul (rect_width rect) (sourceScale rect)),
                   f_sh = Math_round (js_mul (rect_height rect) (sourceScale rect)),
                   f_dw = canvas_dim (rect_width rect), f_dh = canvas_dim (rect_height rect) \<rparr>])"
proof -
  note cr = handleStart_rest_canvasRef[OF assms(5,6,7), of rect st w]
  have w: "canvas_dim (rect_width rect) = 2 * (\<lfloor>rect_width rect\<rfloor> div 2)"
    by (rule canvas_dim_eq[OF assms(1,2)])
  have h: "canvas_dim (rect_height rect) = 2 * (\<lfloor>rect_height rect\<rfloor> div 2)"
    by (rule canvas_dim_eq[OF assms(3,4)])
  have c1: "canvasRef (handleStart_rest rect st env w)
           = Some (2 * (\<lfloor>rect_width rect\<rfloor> div 2), 2 * (\<lfloor>rect_height rect\<rfloor> div 2))"
    using cr w h by simp
  have c2: "rect_width rect = 101 \<and> rect_height rect = 51
              \<longrightarrow> canvasRef (handleStart_rest rect st env w) = Some (100, 50)"
    using c1 by auto
  have c3: "play_ok env \<longrightarrow>
              frames (handleStart_rest rect st env w) = frames w @
                [\<lparr> f_session = next_session w,
                   f_sx = Math_round (js_mul (rect_x rect) (sourceScale rect)),
                   f_sy = Math_round (js_mul (rect_y rect) (sourceScale rect)),
                   f_sw = Math_round (js_mul (rect_width rect) (sourceScale rect)),
                   f_sh = Math_round (js_mul (rect_height rect) (sourceScale rect)),
                   f_dw = canvas_dim (rect_width rect), f_dh = canvas_dim (rect_height rect) \<rparr>]"
    using handleStart_rest_frames[OF assms(5,6,7)] by blast
  from c1 c2 c3 canvas_dim_bounds[OF assms(1,2)] canvas_dim_bounds[OF assms(3,4)]
    sourceScale_cases[of rect]
  show ?thesis by (intro conjI) blast+
qed

theorem canvas_even_and_scale_default_witness:
  "canvasRef (handleStart_rest (example_worker_rect None) (example_settings Png Mp4)
                (example_start_env 10) worker_initial) = Some (100, 50)
   \<and> sourceScale (example_worker_rect None) = 1
   \<and> sourceScale (example_worker_rect (Some 0)) = 1
   \<and> sourceScale (example_worker_rect (Some 2)) = 2"
proof -
  have a: "0 \<le> rect_width (example_worker_rect None)" "rect_width (example_worker_rect None) < 2 ^ 31"
    "0 \<le> rect_height (example_worker_rect None)" "rect_height (example_worker_rect None) < 2 ^ 31"
    by (simp_all add: example_worker_rect_def)
  have b: "truthy_url (sourceId (example_start_env 10))"
    "screenStream (example_start_env 10) = Some [10]" "ctx_ok (example_start_env 10)"
    by (simp_all add: example_start_env_def truthy_url_def)
  have c: "rect_width (example_worker_rect None) = 101 \<and> rect_height (example_worker_rect None) = 51"
    by (simp add: example_worker_rect_def)
  from canvas_even_and_scale_default[OF a b, of "example_settings Png Mp4" worker_initial] c
  have "canvasRef (handleStart_rest (example_worker_rect None) (example_settings Png Mp4)
                (example_start_env 10) worker_initial) = Some (100, 50)" by blast
  moreover have "sourceScale (example_worker_rect None) = 1"
    "sourceScale (example_worker_rect (Some 0)) = 1" "sourceScale (example_worker_rect (Some 2)) = 2"
    by (simp_all add: sourceScale_def example_worker_rect_def)
  ultimately show ?thesis by simp
qed


subsection \<open>The selection threshold\<close>

lemma handleMouseUp_below_minimum:
  assumes "selection st = Some sel" and "rect_width sel < 5 \<or> rect_height sel < 5"
  shows "snd (handleMouseUp button st) = []"
  using assms by (auto simp add: handleMouseUp_def Let_def)

lemma handleMouseUp_above_minimum:
  assumes "isSelecting st" and "selection st = Some sel"
    and "rect_width sel > 5" and "rect_height sel > 5" and "sel_mode st \<noteq> Record"
  shows "snd (handleMouseUp 0 st) = [CaptureRegion sel (sel_mode st) (startPoint st)]"
  using assms by (auto simp add: handleMouseUp_def Let_def captureAndFinish_def)

text \<open>
  C7. A drag from \<open>(10, 10)\<close> to \<open>(15, 15)\<close> over the frozen screenshot in file mode
  selects a rectangle of \<open>5 \<times> 5\<close>. Releasing the button makes no capture call: the
  only calls of the run are those of the screenshot's arrival. \<open>handleMouseUp\<close> asks for
  more than 5 in both dimensions, while \<open>captureAndFinish\<close>, called on the same
  rectangle, would capture it.
\<close>

theorem mouse_up_5x5_no_capture:
  "selector_calls [ScreenshotLoaded ''blob:1'', MouseDown 0 (10, 10), MouseMove (15, 15), MouseUp 0]
           (selector_initial File True) = [ScreenshotReady, SetIgnoreMouseEvents False None]
   \<and> fst (overlay_run [ScreenshotLoaded ''blob:1'', MouseDown 0 (10, 10), MouseMove (15, 15), MouseUp 0]
           (overlay_mount File True))
       = \<lparr> sel_mode = File, has_onStartRecording = True, isSelecting = False, startPoint = (10, 10),
           selection = Some \<lparr> rect_x = 10, rect_y = 10, rect_width = 5, rect_height = 5 \<rparr>,
           isRecordingActive = False, screenshotUrl = Some ''blob:1'' \<rparr>
   \<and> captureAndFinish File \<lparr> rect_x = 10, rect_y = 10, rect_width = 5, rect_height = 5 \<rparr> (10, 10)
       = [CaptureRegion \<lparr> rect_x = 10, rect_y = 10, rect_width = 5, rect_height = 5 \<rparr> File (10, 10)]"
  by code_simp


subsection \<open>The click-through policy of the overlay\<close>

lemma click_policy_table:
  "click_policy (md, active, url) =
     (if md = Record then (if active then PassThrough True else CaptureMouse)
      else (if truthy_url url then CaptureMouse else PassThrough True))"
  by (simp add: click_policy_def clickThroughEffect_def set_ignore_mouse_events_def)

lemma apply_calls_append: "apply_calls pol (cs @ ds) = apply_calls (apply_calls pol cs) ds"
  by (induction pol cs rule: apply_calls.induct) simp_all

lemma apply_calls_effect [simp]:
  "apply_calls pol (clickThroughEffect md active url # cs)
     = apply_calls (click_policy (md, active, url)) cs"
  by (simp add: click_policy_def clickThroughEffect_def)

lemma run_effects_policy:
  "apply_calls pol (snd (run_effects old new)) =
     (if click_deps (fst (run_effects old new)) = click_deps old then pol
      else click_policy (click_deps (fst (run_effects old new))))"
  by (auto simp add: run_effects_def Let_def click_deps_def)

lemma handle_event_no_policy:
  assumes "e \<noteq> ControlMouseEnter" and "e \<noteq> ControlMouseLeave"
  shows "apply_calls pol (snd (handle_event e st)) = pol"
  using assms
  by (cases e) (auto simp add: handleMouseUp_def captureAndFinish_def handleStartRecording_def
      Let_def split: option.splits)

lemma run_effects_same [simp]: "run_effects st st = (st, [])"
  by (simp add: run_effects_def)

lemma overlay_step_policy:
  "snd (overlay_step e (st, pol)) =
     (if e = ControlMouseEnter \<and> hover_effective st then CaptureMouse
      else if e = ControlMouseLeave \<and> hover_effective st then PassThrough True
      else if click_deps (fst (overlay_step e (st, pol))) = click_deps st then pol
      else click_policy (click_deps (fst (overlay_step e (st, pol)))))"
proof (cases "e = ControlMouseEnter \<or> e = ControlMouseLeave")
  case True
  then show ?thesis
    by (auto simp add: overlay_step_def selector_step_def hover_effective_def
        handleControlMouseEnter_def handleControlMouseLeave_def set_ignore_mouse_events_def)
next
  case False
  then have ne: "e \<noteq> ControlMouseEnter" "e \<noteq> ControlMouseLeave" by simp_all
  obtain st1 cs where h: "handle_event e st = (st1, cs)" by (cases "handle_event e st")
  obtain st2 es where r: "run_effects st st1 = (st2, es)" by (cases "run_effects st st1")
  have p: "apply_calls pol cs = pol" using handle_event_no_policy[OF ne, of pol st] h by simp
  have q: "apply_calls pol es = (if click_deps st2 = click_deps st then pol else click_policy (click_deps st2))"
    using run_effects_policy[of pol st st1] r by simp
  show ?thesis using ne h r p q
    by (simp add: overlay_step_def selector_step_def apply_calls_append)
qed


lemma overlay_mount_policy: "snd (overlay_mount md has) = click_policy (click_deps (fst (overlay_mount md has)))"
  by (simp add: overlay_mount_def selector_mount_def selector_initial_def click_deps_def)

lemma overlay_run_policy:
  assumes "\<forall>e \<in> set es. e \<noteq> ControlMouseEnter \<and> e \<noteq> ControlMouseLeave"
    and "snd sp = click_policy (click_deps (fst sp))"
  shows "snd (overlay_run es sp) = click_policy (click_deps (fst (overlay_run es sp)))"
  using assms
proof (induction es arbitrary: sp)
  case Nil
  then show ?case by simp
next
  case (Cons e es)
  have ne: "e \<noteq> ControlMouseEnter" "e \<noteq> ControlMouseLeave" using Cons.prems(1) by simp_all
  obtain st pol where sp: "sp = (st, pol)" by (cases sp)
  have pol: "pol = click_policy (click_deps st)" using Cons.prems(2) sp by simp
  have "snd (overlay_step e (st, pol)) = click_policy (click_deps (fst (overlay_step e (st, pol))))"
    by (subst overlay_step_policy) (use ne pol in auto)
  with Cons sp show ?case by simp
qed

text \<open>
  C2. The specification says that no event other than a change of mode, recording
  activity or backdrop changes the click-through state. After a selection and a click on the start
  button in record mode the window passes the mouse through; moving the pointer onto the
  control bar then makes the window capture the mouse, while the three inputs stay as
  they were.
\<close>

theorem click_through_function_counterexample:
  "click_deps (fst (overlay_step ControlMouseEnter example_recording_overlay))
     = click_deps (fst example_recording_overlay)
   \<and> snd example_recording_overlay = PassThrough True
   \<and> snd (overlay_step ControlMouseEnter example_recording_overlay) = CaptureMouse"
  by code_simp


text \<open>
  C2, as the overlay does it. The click-through effect asks for a policy that is a
  function of mode, recording activity and backdrop: in record mode pass-through while
  the recording is active and capture otherwise, in the still modes capture with a
  backdrop and pass-through without one. Mounting sets this policy. An event sets the
  policy to capture when it is the pointer entering the control bar, and to pass-through
  when it is the pointer leaving it, in record mode with the recording active; any other
  event leaves the policy alone when the three inputs stay the same and sets it to their
  function otherwise. So in a run without such hovering, the policy is always the
  function of the three inputs.
\<close>

theorem click_through_policy:
  "click_policy (md, active, url) =
     (if md = Record then (if active then PassThrough True else CaptureMouse)
      else (if truthy_url url then CaptureMouse else PassThrough True))
   \<and> snd (overlay_mount md has) = click_policy (md, False, None)
   \<and> snd (overlay_step e (st, pol)) =
       (if e = ControlMouseEnter \<and> hover_effective st then CaptureMouse
        else if e = ControlMouseLeave \<and> hover_effective st then PassThrough True
        else if click_deps (fst (overlay_step e (st, pol))) = click_deps st then pol
        else click_policy (click_deps (fst (overlay_step e (st, pol)))))
   \<and> ((\<forall>e \<in> set es. e \<noteq> ControlMouseEnter \<and> e \<noteq> ControlMouseLeave) \<longrightarrow>
        snd (overlay_run es (overlay_mount md has))
          = click_policy (click_deps (fst (overlay_run es (overlay_mount md has)))))"
proof -
  have m: "snd (overlay_mount md has) = click_policy (md, False, None)"
    by (simp add: overlay_mount_def selector_mount_def)
  from click_policy_table[of md active url] m overlay_step_policy[of e st pol]
    overlay_run_policy[OF _ overlay_mount_policy, of es md has]
  show ?thesis by (intro conjI impI) assumption+
qed

theorem click_through_policy_witness:
  "snd example_recording_overlay = PassThrough True
   \<and> snd (overlay_step ControlMouseLeave (fst example_recording_overlay, CaptureMouse))
       = PassThrough True"
proof -
  have h: "\<forall>e \<in> set [MouseDown 0 (10, 10), MouseMove (210, 160), MouseUp 0, ClickStart].
             e \<noteq> ControlMouseEnter \<and> e \<noteq> ControlMouseLeave" by simp
  have r: "click_policy (click_deps (fst (overlay_run
             [MouseDown 0 (10, 10), MouseMove (210, 160), MouseUp 0, ClickStart]
             (overlay_mount Record True)))) = PassThrough True" by code_simp
  have v: "hover_effective (fst example_recording_overlay)" by code_simp
  from click_through_policy[of Record True None True ControlMouseLeave
      "fst example_recording_overlay" CaptureMouse
      "[MouseDown 0 (10, 10), MouseMove (210, 160), MouseUp 0, ClickStart]"] h r v
  show ?thesis by (simp add: example_recording_overlay_def)
qed


subsection \<open>The clean-up at the start of a recording\<close>


lemma MediaRecorder_stop_fields:
  assumes "MediaRecorder_stop r w = Inr w'"
  shows "chunksRef w' = chunksRef w" "sent w' = sent w" "mediaRecorderRef w' = mediaRecorderRef w"
    "streamRef w' = streamRef w" "animationFrameRef w' = animationFrameRef w"
    "timers w' = timers w" "frames w' = frames w" "stopped_tracks w' = stopped_tracks w"
    "next_timer w' = next_timer w" "next_session w' = next_session w" "wlog w' = wlog w"
    "recorder_state_of w' r = Some Inactive"
  using assms
  by (auto simp add: MediaRecorder_stop_def recorder_state_of_def
      split: option.splits recorder_state.splits)

lemma stop_previous_fields [simp]:
  "chunksRef (stop_previous w) = chunksRef w" "sent (stop_previous w) = sent w"
  "mediaRecorderRef (stop_previous w) = mediaRecorderRef w"
  "streamRef (stop_previous w) = streamRef w"
  "animationFrameRef (stop_previous w) = animationFrameRef w"
  "timers (stop_previous w) = timers w" "frames (stop_previous w) = frames w"
  "stopped_tracks (stop_previous w) = stopped_tracks w"
  "next_timer (stop_previous w) = next_timer w" "next_session (stop_previous w) = next_session w"
  by (auto simp add: stop_previous_def Let_def MediaRecorder_stop_fields split: sum.splits)



lemma handleStart_cleanup_props:
  "chunksRef (handleStart_cleanup w) = []"
  "sent (handleStart_cleanup w) = sent w"
  "frames (handleStart_cleanup w) = frames w"
  "mediaRecorderRef (handleStart_cleanup w) = mediaRecorderRef w"
  "next_session (handleStart_cleanup w) = next_session w"
  "next_timer (handleStart_cleanup w) = next_timer w"
  "streamRef (handleStart_cleanup w) = None"
  "stopped_tracks (handleStart_cleanup w) =
     stopped_tracks w \<union> (case streamRef w of None \<Rightarrow> {} | Some ts \<Rightarrow> set ts)"
  "timers (handleStart_cleanup w) =
     (case animationFrameRef w of
        None \<Rightarrow> timers w
      | Some t \<Rightarrow> if t \<noteq> 0 then (timers w)(t := None) else timers w)"
  "animationFrameRef (handleStart_cleanup w) =
     (case animationFrameRef w of
        None \<Rightarrow> None
      | Some t \<Rightarrow> if t \<noteq> 0 then None else Some 0)"
  by (simp_all add: handleStart_cleanup_def Let_def split: option.splits)




subsection \<open>The rest of a start, and what runs preserve\<close>

lemma handleStart_rest_sent [simp]: "sent (handleStart_rest rect st env w) = sent w"
  by (simp add: handleStart_rest_def Let_def split_def split: option.splits)



lemma handleStart_rest_next_session:
  "next_session w \<le> next_session (handleStart_rest rect st env w)"
  by (auto simp add: handleStart_rest_def Let_def split_def split: option.splits)

lemma draw_other:
  assumes "m \<noteq> n"
  shows "frames_of n (draw m w) = frames_of n w"
    and "no_tick_pending n w \<Longrightarrow> no_tick_pending n (draw m w)"
  using assms by (auto simp add: draw_def Let_def frames_of_def no_tick_pending_def split: option.splits)

lemma handleStart_rest_other:
  assumes "n < next_session w"
  shows "frames_of n (handleStart_rest rect st env w) = frames_of n w"
    and "no_tick_pending n w \<Longrightarrow> no_tick_pending n (handleStart_rest rect st env w)"
  using assms
  by (auto simp add: handleStart_rest_def Let_def split_def frames_of_def no_tick_pending_def
      draw_def split: option.splits)

lemma handleStart_rest_timers:
  assumes "truthy_url (sourceId env)" and "screenStream env = Some ts" and "ctx_ok env"
    and "play_ok env"
  shows "timers (handleStart_rest rect st env w) = (timers w)(next_timer w \<mapsto> next_session w)"
  using assms by (simp add: handleStart_rest_def Let_def split_def draw_def)

lemma handleStop_fields:
  assumes "handleStop w = Inr w'"
  shows "chunksRef w' = chunksRef w" "sent w' = sent w" "timers w' = timers w"
    "frames w' = frames w" "next_session w' = next_session w"
  using assms
  by (auto simp add: handleStop_def Let_def MediaRecorder_stop_fields split: if_splits sum.splits)

lemma worker_step_StopCmd_fields [simp]:
  "chunksRef (worker_step StopCmd w) = chunksRef w" "sent (worker_step StopCmd w) = sent w"
  "timers (worker_step StopCmd w) = timers w" "frames (worker_step StopCmd w) = frames w"
  "next_session (worker_step StopCmd w) = next_session w"
  by (auto simp add: handleStop_fields split: sum.splits)

lemma ondataavailable_fields [simp]:
  "sent (ondataavailable n d w) = sent w" "timers (ondataavailable n d w) = timers w"
  "frames (ondataavailable n d w) = frames w" "next_session (ondataavailable n d w) = next_session w"
  "sessions (ondataavailable n d w) = sessions w"
  "animationFrameRef (ondataavailable n d w) = animationFrameRef w"
  "chunksRef (ondataavailable n d w) = (if d \<noteq> [] then chunksRef w @ [(n, d)] else chunksRef w)"
  by (simp_all add: ondataavailable_def Let_def)

lemma onstop_fields [simp]:
  "frames (onstop n w) = frames w" "next_session (onstop n w) = next_session w"
  by (simp_all add: onstop_def Let_def split: option.splits)

lemma onstop_timers:
  "timers (onstop n w) = timers w \<or> (\<exists>t. timers (onstop n w) = (timers w)(t := None))"
  by (auto simp add: onstop_def Let_def split: option.splits)


lemma no_tick_pending_remove:
  "no_tick_pending n w \<Longrightarrow> timers w' = (timers w)(t := None) \<Longrightarrow> no_tick_pending n w'"
  by (simp add: no_tick_pending_def)

lemma no_tick_pending_same:
  "no_tick_pending n w \<Longrightarrow> timers w' = timers w \<Longrightarrow> no_tick_pending n w'"
  by (simp add: no_tick_pending_def)

lemma frames_of_same: "frames w' = frames w \<Longrightarrow> frames_of n w' = frames_of n w"
  by (simp add: frames_of_def)


lemma worker_step_halted:
  assumes "no_tick_pending n w" and "n < next_session w"
  shows "no_tick_pending n (worker_step e w) \<and> n < next_session (worker_step e w)
         \<and> frames_of n (worker_step e w) = frames_of n w"
proof (cases e)
  case StartBegin
  then show ?thesis using assms
    by (auto simp add: handleStart_cleanup_props no_tick_pending_def frames_of_def split: option.splits)
next
  case (StartRest rect st env)
  then show ?thesis
    using assms handleStart_rest_other[OF assms(2)] handleStart_rest_next_session[of w rect st env]
    by auto
next
  case StopCmd
  then show ?thesis using assms
    by (simp add: no_tick_pending_def frames_of_def del: worker_step.simps)
next
  case (RecorderFlush m d)
  show ?thesis
  proof (cases "stop_pending w m")
    case False
    then show ?thesis using RecorderFlush assms by simp
  next
    case True
    let ?w1 = "ondataavailable m d (update_session m (\<lambda>s. s\<lparr>s_stop_pending := False\<rparr>) w)"
    have st: "worker_step e w = onstop m ?w1" using RecorderFlush True by simp
    have p1: "no_tick_pending n ?w1" using assms(1) by (simp add: no_tick_pending_def)
    have "no_tick_pending n (onstop m ?w1)"
      using onstop_timers[of m ?w1] p1 by (auto simp add: no_tick_pending_def split: if_splits)
    then show ?thesis unfolding st using assms(2) by (simp add: frames_of_def)
  qed
next
  case (TimerFire t)
  show ?thesis
  proof (cases "timers w t")
    case None
    then show ?thesis using TimerFire assms by simp
  next
    case (Some m)
    then have mn: "m \<noteq> n" using assms(1) by (auto simp add: no_tick_pending_def)
    have p: "no_tick_pending n (clearTimeout t w)" using assms(1) by (simp add: no_tick_pending_def)
    show ?thesis using TimerFire Some assms(2) draw_other[OF mn, of "clearTimeout t w"] p
      by (simp add: frames_of_def)
  qed
next
  case (VideoPaused m b)
  then show ?thesis using assms by (simp add: no_tick_pending_def frames_of_def)
next
  case (VideoEnded m)
  then show ?thesis using assms by (simp add: no_tick_pending_def frames_of_def)
qed

lemma worker_run_halted:
  assumes "no_tick_pending n w" and "n < next_session w"
  shows "no_tick_pending n (worker_run es w) \<and> frames_of n (worker_run es w) = frames_of n w"
  using assms
proof (induction es arbitrary: w)
  case Nil
  then show ?case by simp
next
  case (Cons e es)
  from worker_step_halted[OF Cons.prems, of e] Cons.IH[of "worker_step e w"]
  show ?case by simp
qed


subsection \<open>Consecutive sessions\<close>












lemma fresh_worker_fields [simp]:
  "sessions (fresh_worker k) = Map.empty" "sent (fresh_worker k) = []"
  "next_session (fresh_worker k) = k" "chunksRef (fresh_worker k) = []"
  by (simp_all add: fresh_worker_def worker_initial_def)







subsection \<open>The tick loop\<close>

lemma draw_paused:
  assumes "sessions w n = Some s" and "s_video_paused s \<or> s_video_ended s"
  shows "draw n w = w"
  using assms by (auto simp add: draw_def)

lemma example_w0_timers: "timers example_w0 = [1 \<mapsto> 0]"
proof -
  have "timers (handleStart_cleanup worker_initial) = Map.empty"
    "next_timer (handleStart_cleanup worker_initial) = 1"
    "next_session (handleStart_cleanup worker_initial) = 0"
    by (simp_all add: handleStart_cleanup_props) (simp_all add: worker_initial_def)
  moreover have "truthy_url (sourceId (example_start_env 10))"
    "screenStream (example_start_env 10) = Some [10]" "ctx_ok (example_start_env 10)"
    "play_ok (example_start_env 10)"
    by (simp_all add: example_start_env_def truthy_url_def)
  ultimately show ?thesis
    by (simp add: example_w0_def example_session1_def handleStart_rest_timers)
qed

text \<open>
  C8. The specification says that the tick loop keeps running after a tick that found
  the video paused. In the example the only timeout ever scheduled fires while the video is paused:
  afterwards no timeout is pending, and with the video playing again no later timer
  event draws a frame.
\<close>

theorem paused_tick_loop_counterexample:
  "map_option s_video_paused
     (sessions (worker_run [VideoPaused 0 True, TimerFire 1, VideoPaused 0 False] example_w0) 0)
       = Some False
   \<and> next_timer (worker_run [VideoPaused 0 True, TimerFire 1, VideoPaused 0 False] example_w0) = 2
   \<and> timers (worker_run [VideoPaused 0 True, TimerFire 1, VideoPaused 0 False] example_w0) 1 = None
   \<and> frames (worker_run [VideoPaused 0 True, TimerFire 1, VideoPaused 0 False, TimerFire 1,
                          TimerFire 2] example_w0)
       = frames example_w0"
  by code_simp

text \<open>
  C8, as the compositor does it. A run of \<open>draw\<close> that finds the video paused or ended
  changes nothing: it draws no frame, raises no error and schedules no further run. When
  the timeout that fired was the only one pending for the session, none is pending
  afterwards, and whatever happens later (the video resuming included) no frame is drawn
  for the session again.
\<close>

theorem paused_tick_halts_loop:
  assumes "sessions w n = Some s" and "s_video_paused s \<or> s_video_ended s"
    and "timers w t = Some n" and "\<forall>u. u \<noteq> t \<longrightarrow> timers w u \<noteq> Some n"
    and "n < next_session w"
  shows "draw n w = w
         \<and> worker_step (TimerFire t) w = clearTimeout t w
         \<and> no_tick_pending n (worker_run es (worker_step (TimerFire t) w))
         \<and> frames_of n (worker_run es (worker_step (TimerFire t) w)) = frames_of n w"
proof -
  have d: "draw n w = w" by (rule draw_paused[OF assms(1,2)])
  have "sessions (clearTimeout t w) n = Some s" using assms(1) by simp
  then have "draw n (clearTimeout t w) = clearTimeout t w" by (rule draw_paused[OF _ assms(2)])
  then have st: "worker_step (TimerFire t) w = clearTimeout t w" using assms(3) by simp
  have p: "no_tick_pending n (clearTimeout t w)"
    using assms(4) by (auto simp add: no_tick_pending_def)
  have q: "n < next_session (clearTimeout t w)" using assms(5) by simp
  from worker_run_halted[OF p q, of es] d st show ?thesis by (simp add: frames_of_def)
qed


theorem paused_tick_halts_loop_witness:
  "frames_of 0 (worker_run [VideoPaused 0 False, TimerFire 1, TimerFire 2]
                  (worker_step (TimerFire 1) (worker_step (VideoPaused 0 True) example_w0)))
     = frames_of 0 (worker_step (VideoPaused 0 True) example_w0)
   \<and> worker_step (TimerFire 1) (worker_step (VideoPaused 0 True) example_w0)
     = clearTimeout 1 (worker_step (VideoPaused 0 True) example_w0)"
proof -
  let ?w = "worker_step (VideoPaused 0 True) example_w0"
  have "map_option s_video_paused (sessions ?w 0) = Some True" by code_simp
  then obtain s where h1: "sessions ?w 0 = Some s" and h2: "s_video_paused s \<or> s_video_ended s"
    by auto
  have tm: "timers ?w = [1 \<mapsto> 0]" by (simp add: example_w0_timers)
  have h3: "timers ?w 1 = Some 0" unfolding tm by simp
  have h4: "\<forall>u. u \<noteq> 1 \<longrightarrow> timers ?w u \<noteq> Some 0" unfolding tm by simp
  have h5: "0 < next_session ?w" by code_simp
  from paused_tick_halts_loop[OF h1 h2 h3 h4 h5, of "[VideoPaused 0 False, TimerFire 1, TimerFire 2]"]
  show ?thesis by blast
qed


end
